theory Spec2Isabelle
  imports Main "HOL-Library.AList" "HOL-Library.Log_Nat" "HOL-Library.Monad_Syntax"
begin

section \<open>Error classifier (errors/categorize.py)\<close>

text \<open>
  \<^verbatim>\<open>ErrorCategory\<close> is a closed set of fifteen string literals; it becomes a datatype
  with one constructor per literal, in the order of the source.
\<close>

datatype error_category =
    Authorization
  | Permission
  | Parameter
  | Throttling
  | Template
  | Media
  | PhoneRegistration
  | Integrity
  | BusinessEligibility
  | ReengagementWindow
  | WabaConfig
  | Flow
  | Synchronization
  | Server
  | Unknown

text \<open>
  The dictionary literal \<^verbatim>\<open>_CODE_TO_CATEGORY\<close>, entry by entry in source order. A
  dictionary literal with a repeated key keeps the last value; the table has no repeated
  key (lemma \<open>code_to_category_distinct\<close> below), so \<open>map_of\<close> reads it as Python does.
\<close>

definition code_to_category :: "(int \<times> error_category) list" where
  "code_to_category =
    [(0, Authorization), (190, Authorization),
     (10, Permission), (200, Permission), (299, Permission),
     (4, Throttling), (80007, Throttling), (130429, Throttling), (131048, Throttling),
     (131056, Throttling),
     (33, Parameter), (100, Parameter), (130472, Parameter), (131008, Parameter),
     (131009, Parameter), (131021, Parameter), (131026, Parameter), (135000, Parameter),
     (131051, Media), (131052, Media), (131053, Media),
     (132000, Template), (132001, Template), (132005, Template), (132007, Template),
     (132012, Template), (132015, Template), (132016, Template),
     (132068, Flow), (132069, Flow),
     (133000, PhoneRegistration), (133004, PhoneRegistration), (133005, PhoneRegistration),
     (133006, PhoneRegistration), (133008, PhoneRegistration), (133009, PhoneRegistration),
     (133010, PhoneRegistration), (133015, PhoneRegistration), (133016, PhoneRegistration),
     (131047, ReengagementWindow),
     (368, Integrity), (130497, Integrity), (131031, Integrity)]"

text \<open>
  \<^verbatim>\<open>categorize_error(code, http_status)\<close>: both arguments are \<^verbatim>\<open>int | None\<close>. The
  three \<^verbatim>\<open>return\<close>s of the source are the three branches, in order.
\<close>

definition categorize_error :: "int option \<Rightarrow> int option \<Rightarrow> error_category" where
  "categorize_error code http_status =
     (if code \<noteq> None \<and> the code \<in> dom (map_of code_to_category)
      then the (map_of code_to_category (the code))
      else if http_status \<noteq> None \<and> the http_status \<ge> 500 then Server
      else Unknown)"


section \<open>Python values\<close>

text \<open>
  The library handles decoded JSON bodies typed \<^verbatim>\<open>Any\<close>. They are modelled by a
  datatype of Python values. A dictionary is an association list in insertion order;
  its keys are values too, so that a dictionary with a key that is not a string can be
  written down. Strings are Isabelle strings: the model covers ASCII text, which is what
  the keys of the Graph API and the syntax of a number are made of.

  A finite float \<open>Finite m e\<close> is the double \<open>m * 2 ^ e\<close>; the sign of zero is not kept.
\<close>

datatype pyfloat = Finite int int | Infinity bool | NaN

datatype pyval =
    PNone
  | PBool bool
  | PInt int
  | PFloat pyfloat
  | PStr string
  | PList "pyval list"
  | PDict "(pyval \<times> pyval) list"

type_synonym pydict = "(pyval \<times> pyval) list"

text \<open>The exceptions the modelled code can raise; a failing call returns \<open>Inl\<close>.\<close>

datatype py_error =
    TypeError
  | ValueError
  | AttributeError
  | OverflowError
  | JSONDecodeError
  | ValidationError

text \<open>Truth value of an object, as \<^verbatim>\<open>not x\<close>, \<^verbatim>\<open>x or y\<close> and \<^verbatim>\<open>if x\<close> test it.\<close>

fun truthy :: "pyval \<Rightarrow> bool" where
  "truthy PNone = False"
| "truthy (PBool b) = b"
| "truthy (PInt i) = (i \<noteq> 0)"
| "truthy (PFloat (Finite m e)) = (m \<noteq> 0)"
| "truthy (PFloat x) = True"
| "truthy (PStr s) = (s \<noteq> [])"
| "truthy (PList xs) = (xs \<noteq> [])"
| "truthy (PDict kvs) = (kvs \<noteq> [])"

definition py_or :: "pyval \<Rightarrow> pyval \<Rightarrow> pyval" where
  "py_or a b = (if truthy a then a else b)"

text \<open>\<^verbatim>\<open>d.get(key, default)\<close> on a dictionary, for a string key.\<close>

definition dict_get :: "pydict \<Rightarrow> string \<Rightarrow> pyval \<Rightarrow> pyval" where
  "dict_get d k dflt = (case map_of d (PStr k) of Some v \<Rightarrow> v | None \<Rightarrow> dflt)"

text \<open>
  \<^verbatim>\<open>obj.get(key, default)\<close> on any value: only a dictionary has the method, every
  other JSON value raises \<^verbatim>\<open>AttributeError\<close>.
\<close>

fun py_get :: "pyval \<Rightarrow> string \<Rightarrow> pyval \<Rightarrow> py_error + pyval" where
  "py_get (PDict d) k dflt = Inr (dict_get d k dflt)"
| "py_get v k dflt = Inl AttributeError"

text \<open>
  \<^verbatim>\<open>for x in obj\<close>: a list gives its elements, a dictionary its keys, a string its
  characters; the other values are not iterable.
\<close>

fun py_iter :: "pyval \<Rightarrow> py_error + pyval list" where
  "py_iter (PList xs) = Inr xs"
| "py_iter (PDict kvs) = Inr (map fst kvs)"
| "py_iter (PStr s) = Inr (map (\<lambda>c. PStr [c]) s)"
| "py_iter v = Inl TypeError"

section \<open>Case converter (utils/case.py)\<close>

definition is_lower :: "char \<Rightarrow> bool" where
  "is_lower c = (97 \<le> (of_char c :: nat) \<and> (of_char c :: nat) \<le> 122)"

definition is_upper :: "char \<Rightarrow> bool" where
  "is_upper c = (65 \<le> (of_char c :: nat) \<and> (of_char c :: nat) \<le> 90)"

definition is_digit :: "char \<Rightarrow> bool" where
  "is_digit c = (48 \<le> (of_char c :: nat) \<and> (of_char c :: nat) \<le> 57)"

definition upper_char :: "char \<Rightarrow> char" where
  "upper_char c = (if is_lower c then char_of (of_char c - (32::nat)) else c)"

definition lower_char :: "char \<Rightarrow> char" where
  "lower_char c = (if is_upper c then char_of (of_char c + (32::nat)) else c)"

text \<open>
  \<^verbatim>\<open>to_camel(s) = re.sub(r"_([a-z0-9])", lambda m: m.group(1).upper(), s)\<close>. The
  substitution scans from the left and its matches do not overlap: at an underscore
  followed by a lower-case letter or a digit both characters are replaced by the
  upper-cased second one, and the scan goes on after them.
\<close>

fun to_camel :: "string \<Rightarrow> string" where
  "to_camel (c # d # cs) =
     (if c = CHR ''_'' \<and> (is_lower d \<or> is_digit d) then upper_char d # to_camel cs
      else c # to_camel (d # cs))"
| "to_camel cs = cs"

text \<open>
  \<^verbatim>\<open>to_snake(s) = re.sub(r"(?<=[a-z0-9])([A-Z])", r"_\1", s).lower()\<close>. The look-behind
  reads the character before the capital in the input, so the first character never
  matches. \<open>snake_sub\<close> is the substitution, \<open>lower_char\<close> the ASCII part of
  \<^verbatim>\<open>str.lower\<close>.
\<close>

fun snake_sub :: "string \<Rightarrow> string" where
  "snake_sub (p # c # cs) =
     (if (is_lower p \<or> is_digit p) \<and> is_upper c then p # CHR ''_'' # snake_sub (c # cs)
      else p # snake_sub (c # cs))"
| "snake_sub cs = cs"

definition to_snake :: "string \<Rightarrow> string" where
  "to_snake s = map lower_char (snake_sub s)"

text \<open>
  \<^verbatim>\<open>to_camel_deep\<close> and \<^verbatim>\<open>to_snake_deep\<close> have the same body up to the key function:
  a list is converted element by element, a dictionary by the comprehension
  \<^verbatim>\<open>{f(k): deep(v) for k, v in obj.items()}\<close>, anything else is returned as it is. The
  comprehension evaluates the key before the value and stores the pair, a later pair
  replacing the value of an equal key. The key function is a regular-expression
  substitution, which raises \<^verbatim>\<open>TypeError\<close> on a key that is not a string.
\<close>

fun convert_deep :: "(string \<Rightarrow> string) \<Rightarrow> pyval \<Rightarrow> py_error + pyval"
  and convert_deep_list :: "(string \<Rightarrow> string) \<Rightarrow> pyval list \<Rightarrow> py_error + pyval list"
  and convert_deep_items ::
    "(string \<Rightarrow> string) \<Rightarrow> pydict \<Rightarrow> pydict \<Rightarrow> py_error + pydict"
where
  "convert_deep f (PList xs) =
     (case convert_deep_list f xs of Inl e \<Rightarrow> Inl e | Inr ys \<Rightarrow> Inr (PList ys))"
| "convert_deep f (PDict kvs) =
     (case convert_deep_items f kvs [] of Inl e \<Rightarrow> Inl e | Inr d \<Rightarrow> Inr (PDict d))"
| "convert_deep f PNone = Inr PNone"
| "convert_deep f (PBool b) = Inr (PBool b)"
| "convert_deep f (PInt i) = Inr (PInt i)"
| "convert_deep f (PFloat x) = Inr (PFloat x)"
| "convert_deep f (PStr s) = Inr (PStr s)"
| "convert_deep_list f [] = Inr []"
| "convert_deep_list f (x # xs) =
     (case convert_deep f x of
        Inl e \<Rightarrow> Inl e
      | Inr y \<Rightarrow> (case convert_deep_list f xs of Inl e \<Rightarrow> Inl e | Inr ys \<Rightarrow> Inr (y # ys)))"
| "convert_deep_items f [] acc = Inr acc"
| "convert_deep_items f ((k, v) # kvs) acc =
     (case k of
        PStr s \<Rightarrow>
          (case convert_deep f v of
             Inl e \<Rightarrow> Inl e
           | Inr v' \<Rightarrow> convert_deep_items f kvs (AList.update (PStr (f s)) v' acc))
      | _ \<Rightarrow> Inl TypeError)"


definition to_snake_deep :: "pyval \<Rightarrow> py_error + pyval" where
  "to_snake_deep obj = convert_deep to_snake obj"

section \<open>Floating-point conversion of a header (\<^verbatim>\<open>int(float(h) * 1000)\<close>)\<close>

text \<open>
  \<^verbatim>\<open>float(str)\<close> strips ASCII white space, accepts single underscores between digits,
  an optional sign, and then \<^verbatim>\<open>inf\<close>, \<^verbatim>\<open>infinity\<close> or \<^verbatim>\<open>nan\<close> in any letter case, or a
  decimal literal with optional fraction and exponent; anything else raises
  \<^verbatim>\<open>ValueError\<close>. The decimal value is rounded to the nearest double, ties to even; a
  value too large gives infinity, not an error.
\<close>

definition is_space :: "char \<Rightarrow> bool" where
  "is_space c = ((9 \<le> (of_char c :: nat) \<and> (of_char c :: nat) \<le> 13) \<or> c = CHR '' '')"

definition strip :: "string \<Rightarrow> string" where
  "strip s = rev (dropWhile is_space (rev (dropWhile is_space s)))"

text \<open>
  Removal of the underscores, with the previous character at hand: an underscore must
  follow a digit and precede a digit. \<open>None\<close> is the \<^verbatim>\<open>ValueError\<close>.
\<close>

fun strip_underscores :: "char \<Rightarrow> string \<Rightarrow> string option" where
  "strip_underscores prev [] = (if prev = CHR ''_'' then None else Some [])"
| "strip_underscores prev (c # cs) =
     (if c = CHR ''_'' then (if is_digit prev then strip_underscores c cs else None)
      else if prev = CHR ''_'' \<and> \<not> is_digit c then None
      else map_option ((#) c) (strip_underscores c cs))"

definition digits_value :: "string \<Rightarrow> int" where
  "digits_value ds = foldl (\<lambda>n c. 10 * n + (int (of_char c) - 48)) 0 ds"

text \<open>\<open>floor_log2 n d\<close> is the integer \<open>k\<close> with \<open>2 ^ k \<le> n / d < 2 ^ (k + 1)\<close>, for positive \<open>n\<close>, \<open>d\<close>.\<close>

definition floor_log2 :: "int \<Rightarrow> int \<Rightarrow> int" where
  "floor_log2 n d =
     (let k = bitlen n - bitlen d
      in if (if 0 \<le> k then d * 2 ^ nat k \<le> n else d \<le> n * 2 ^ nat (- k)) then k else k - 1)"

text \<open>
  Rounding of the fraction \<open>n / d\<close> (\<open>0 \<le> n\<close>, \<open>0 < d\<close>) with sign \<open>neg\<close> to binary64:
  53 bits of precision, least exponent \<open>- 1074\<close>, ties to even, overflow to infinity
  from \<open>2 ^ 1024\<close> on.
\<close>

definition round_double :: "bool \<Rightarrow> int \<Rightarrow> int \<Rightarrow> pyfloat" where
  "round_double neg n d =
     (if n = 0 then Finite 0 0
      else let e = max (floor_log2 n d - 52) (- 1074);
               num = (if e < 0 then n * 2 ^ nat (- e) else n);
               den = (if e < 0 then d else d * 2 ^ nat e);
               q = num div den;
               r = num mod den;
               m = (if 2 * r < den then q else if den < 2 * r then q + 1
                    else if even q then q else q + 1)
           in if 0 \<le> e \<and> 2 ^ 1024 \<le> m * 2 ^ nat e then Infinity neg
              else Finite (if neg then - m else m) e)"

definition parse_sign :: "string \<Rightarrow> bool \<times> string" where
  "parse_sign s =
     (case s of
        c # cs \<Rightarrow> if c = CHR ''-'' then (True, cs) else if c = CHR ''+'' then (False, cs)
                  else (False, s)
      | [] \<Rightarrow> (False, s))"

definition parse_exponent :: "string \<Rightarrow> int option" where
  "parse_exponent s =
     (case s of
        [] \<Rightarrow> Some 0
      | c # cs \<Rightarrow>
          if c = CHR ''e'' \<or> c = CHR ''E'' then
            (let (neg, ds) = parse_sign cs
             in if ds \<noteq> [] \<and> (\<forall>d \<in> set ds. is_digit d)
                then Some (if neg then - digits_value ds else digits_value ds)
                else None)
          else None)"

text \<open>The decimal literal as a fraction \<open>(n, d)\<close>; \<open>None\<close> when the text is not one.\<close>

definition parse_decimal :: "string \<Rightarrow> (int \<times> int) option" where
  "parse_decimal s =
     (let ip = takeWhile is_digit s; r1 = dropWhile is_digit s;
          (fp, r2) = (case r1 of
                        c # cs \<Rightarrow> if c = CHR ''.'' then (takeWhile is_digit cs, dropWhile is_digit cs)
                                  else ([], r1)
                      | [] \<Rightarrow> ([], r1))
      in if ip = [] \<and> fp = [] then None
         else (case parse_exponent r2 of
                 None \<Rightarrow> None
               | Some ex \<Rightarrow>
                   (let m = digits_value (ip @ fp); k = ex - int (length fp)
                    in Some (if 0 \<le> k then (m * 10 ^ nat k, 1) else (m, 10 ^ nat (- k))))))"

definition py_float :: "string \<Rightarrow> py_error + pyfloat" where
  "py_float s =
     (case (if CHR ''_'' \<in> set (strip s) then strip_underscores (CHR 0x00) (strip s)
            else Some (strip s)) of
        None \<Rightarrow> Inl ValueError
      | Some t \<Rightarrow>
          (let (neg, body) = parse_sign t; low = map lower_char body
           in if low = ''inf'' \<or> low = ''infinity'' then Inr (Infinity neg)
              else if low = ''nan'' then Inr NaN
              else (case parse_decimal body of
                      None \<Rightarrow> Inl ValueError
                    | Some (n, d) \<Rightarrow> Inr (round_double neg n d))))"

text \<open>The product of two floats, rounded once.\<close>

fun float_mul :: "pyfloat \<Rightarrow> pyfloat \<Rightarrow> pyfloat" where
  "float_mul (Finite m1 e1) (Finite m2 e2) =
     (let e = e1 + e2
      in round_double ((m1 < 0) \<noteq> (m2 < 0))
           (if 0 \<le> e then \<bar>m1 * m2\<bar> * 2 ^ nat e else \<bar>m1 * m2\<bar>)
           (if 0 \<le> e then 1 else 2 ^ nat (- e)))"
| "float_mul NaN y = NaN"
| "float_mul x NaN = NaN"
| "float_mul (Infinity s) (Finite m e) = (if m = 0 then NaN else Infinity (s \<noteq> (m < 0)))"
| "float_mul (Finite m e) (Infinity s) = (if m = 0 then NaN else Infinity (s \<noteq> (m < 0)))"
| "float_mul (Infinity s) (Infinity t) = Infinity (s \<noteq> t)"

text \<open>
  \<^verbatim>\<open>int(x)\<close> of a float truncates towards zero; it raises \<^verbatim>\<open>OverflowError\<close> on an
  infinity and \<^verbatim>\<open>ValueError\<close> on a NaN.
\<close>

fun py_int :: "pyfloat \<Rightarrow> py_error + int" where
  "py_int (Finite m e) =
     Inr (if 0 \<le> e then m * 2 ^ nat e
          else if 0 \<le> m then m div 2 ^ nat (- e) else - ((- m) div 2 ^ nat (- e)))"
| "py_int (Infinity s) = Inl OverflowError"
| "py_int NaN = Inl ValueError"

text \<open>The expression \<^verbatim>\<open>int(float(retry_after_header) * 1000)\<close>.\<close>

definition header_ms :: "string \<Rightarrow> py_error + int" where
  "header_ms h =
     (case py_float h of Inl e \<Rightarrow> Inl e | Inr x \<Rightarrow> py_int (float_mul x (Finite 1000 0)))"

section \<open>Retry advisor (errors/retry.py)\<close>

datatype retry_action = Retry | RetryAfter | FixAndRetry | DoNotRetry | RefreshToken

record retry_hint =
  action :: retry_action
  retry_after_ms :: "int option"

definition category_retry :: "(error_category \<times> retry_action) list" where
  "category_retry =
    [(Authorization, RefreshToken),
     (Permission, FixAndRetry),
     (Parameter, FixAndRetry),
     (Throttling, RetryAfter),
     (Template, FixAndRetry),
     (Media, FixAndRetry),
     (PhoneRegistration, FixAndRetry),
     (Integrity, DoNotRetry),
     (BusinessEligibility, DoNotRetry),
     (ReengagementWindow, DoNotRetry),
     (WabaConfig, FixAndRetry),
     (Flow, FixAndRetry),
     (Synchronization, Retry),
     (Server, Retry),
     (Unknown, Retry)]"

text \<open>
  \<^verbatim>\<open>get_retry_hint(category, retry_after_header)\<close>. The conversion of the header runs
  under \<^verbatim>\<open>contextlib.suppress(ValueError, TypeError)\<close>: these two exceptions leave
  \<^verbatim>\<open>retry_after_ms\<close> at \<^verbatim>\<open>None\<close>, any other exception leaves the function.
\<close>

definition get_retry_hint :: "error_category \<Rightarrow> string option \<Rightarrow> py_error + retry_hint" where
  "get_retry_hint category retry_after_header =
     (let act = (case map_of category_retry category of Some a \<Rightarrow> a | None \<Rightarrow> Retry);
          parsed = (case retry_after_header of
                      None \<Rightarrow> Inr None
                    | Some h \<Rightarrow>
                        (case header_ms h of
                           Inr ms \<Rightarrow> Inr (Some ms)
                         | Inl e \<Rightarrow> if e = ValueError \<or> e = TypeError then Inr None else Inl e))
      in case parsed of
           Inl e \<Rightarrow> Inl e
         | Inr ms \<Rightarrow>
             Inr \<lparr>action = act,
                  retry_after_ms = (if act = RetryAfter \<and> ms = None then Some 60000 else ms)\<rparr>)"

section \<open>API error (errors/graph_api_error.py)\<close>

text \<open>
  The fields read from the body are not validated, so they hold any value. The message
  is the argument of \<^verbatim>\<open>Exception.__init__\<close>.
\<close>

record graph_api_error =
  gae_message :: pyval
  gae_http_status :: int
  gae_code :: pyval
  gae_type :: pyval
  gae_details :: pyval
  gae_error_subcode :: pyval
  gae_fbtrace_id :: pyval
  gae_error_data :: pyval
  gae_raw :: pyval
  gae_category :: error_category
  gae_retry :: retry_hint

text \<open>
  \<^verbatim>\<open>categorize_error\<close> receives the \<^verbatim>\<open>code\<close> of the body, whatever it is. The test
  \<^verbatim>\<open>code in _CODE_TO_CATEGORY\<close> hashes it: a list or a dictionary raises \<^verbatim>\<open>TypeError\<close>,
  a boolean or an integral float is equal to the integer of its value, a string or
  \<^verbatim>\<open>None\<close> is equal to no key. \<open>code_key\<close> is the integer the table is read at, if any.
\<close>

fun code_key :: "pyval \<Rightarrow> py_error + int option" where
  "code_key PNone = Inr None"
| "code_key (PBool b) = Inr (Some (if b then 1 else 0))"
| "code_key (PInt i) = Inr (Some i)"
| "code_key (PFloat (Finite m e)) =
     Inr (if 0 \<le> e then Some (m * 2 ^ nat e)
          else if m mod 2 ^ nat (- e) = 0 then Some (m div 2 ^ nat (- e)) else None)"
| "code_key (PFloat x) = Inr None"
| "code_key (PStr s) = Inr None"
| "code_key (PList xs) = Inl TypeError"
| "code_key (PDict kvs) = Inl TypeError"

text \<open>\<^verbatim>\<open>GraphApiError.__init__\<close>: stores the fields, then derives category and retry hint.\<close>

definition graph_api_error_init ::
  "pyval \<Rightarrow> int \<Rightarrow> pyval \<Rightarrow> pyval \<Rightarrow> pyval \<Rightarrow> pyval \<Rightarrow> pyval \<Rightarrow> pyval \<Rightarrow> string option \<Rightarrow> pyval
   \<Rightarrow> py_error + graph_api_error" where
  "graph_api_error_init message http_status code etype details error_subcode fbtrace_id
     error_data retry_after_header raw =
     (case code_key code of
        Inl e \<Rightarrow> Inl e
      | Inr k \<Rightarrow>
          (let category = categorize_error k (Some http_status)
           in case get_retry_hint category retry_after_header of
                Inl e \<Rightarrow> Inl e
              | Inr hint \<Rightarrow>
                  Inr \<lparr>gae_message = message, gae_http_status = http_status, gae_code = code,
                       gae_type = etype, gae_details = details,
                       gae_error_subcode = error_subcode, gae_fbtrace_id = fbtrace_id,
                       gae_error_data = error_data, gae_raw = raw,
                       gae_category = category, gae_retry = hint\<rparr>))"

text \<open>
  \<^verbatim>\<open>GraphApiError.from_response\<close>: \<^verbatim>\<open>err = body.get("error", body)\<close>, then one
  \<^verbatim>\<open>err.get\<close> per field; \<^verbatim>\<open>details\<close> is
  \<^verbatim>\<open>err.get("error_user_msg") or err.get("details")\<close>.
\<close>

definition from_response :: "int \<Rightarrow> pyval \<Rightarrow> string option \<Rightarrow> py_error + graph_api_error" where
  "from_response http_status body retry_after_header =
     (case py_get body ''error'' body of
        Inl e \<Rightarrow> Inl e
      | Inr err \<Rightarrow>
          (case err of
             PDict d \<Rightarrow>
               graph_api_error_init
                 (dict_get d ''message'' (PStr ''Unknown Graph API error''))
                 http_status
                 (dict_get d ''code'' PNone)
                 (dict_get d ''type'' (PStr ''''))
                 (py_or (dict_get d ''error_user_msg'' PNone) (dict_get d ''details'' PNone))
                 (dict_get d ''error_subcode'' PNone)
                 (dict_get d ''fbtrace_id'' PNone)
                 (dict_get d ''error_data'' PNone)
                 retry_after_header
                 body
           | _ \<Rightarrow> Inl AttributeError))"

section \<open>Transport (client.py)\<close>

text \<open>
  The state of a \<^verbatim>\<open>WhatsAppClient\<close> that a request reads. The HTTP client it holds is
  a collaborator: it is the function \<open>http\<close> that \<open>request\<close> takes, from the request sent
  to the response received.
\<close>

record whatsapp_client =
  access_token :: string
  base_url :: string
  version :: string

type_synonym headers = "string \<rightharpoonup> string"

definition rstrip_slash :: "string \<Rightarrow> string" where
  "rstrip_slash s = rev (dropWhile (\<lambda>c. c = CHR ''/'') (rev s))"

definition lstrip_slash :: "string \<Rightarrow> string" where
  "lstrip_slash s = dropWhile (\<lambda>c. c = CHR ''/'') s"

text \<open>\<^verbatim>\<open>__init__\<close>: the token, the base URL without trailing slashes, the version.\<close>

definition whatsapp_client_init :: "string \<Rightarrow> string \<Rightarrow> string \<Rightarrow> whatsapp_client" where
  "whatsapp_client_init token url graph_version =
     \<lparr>access_token = token, base_url = rstrip_slash url, version = graph_version\<rparr>"

definition url_of :: "whatsapp_client \<Rightarrow> string \<Rightarrow> string" where
  "url_of c path =
     (if take 4 path = ''http'' then path
      else base_url c @ ''/'' @ version c @ ''/'' @ lstrip_slash path)"

definition auth_headers :: "whatsapp_client \<Rightarrow> headers" where
  "auth_headers c = [''Authorization'' \<mapsto> ''Bearer '' @ access_token c]"

text \<open>
  \<^verbatim>\<open>merged_headers = {**self._auth_headers, **(headers or {})}\<close>: the entries of the
  second dictionary are written over those of the first. \<^verbatim>\<open>headers\<close> is a dictionary
  or \<^verbatim>\<open>None\<close>.
\<close>

definition merged_headers :: "whatsapp_client \<Rightarrow> headers option \<Rightarrow> headers" where
  "merged_headers c hdrs = auth_headers c ++ (case hdrs of None \<Rightarrow> Map.empty | Some h \<Rightarrow> h)"

record http_request =
  req_method :: string
  req_url :: string
  req_json :: "pyval option"
  req_params :: "pyval option"
  req_data :: "pyval option"
  req_files :: "pyval option"
  req_headers :: headers

text \<open>
  What \<open>request\<close> reads of the response: the status, the raw content, the result of
  \<^verbatim>\<open>resp.json()\<close> and the \<^verbatim>\<open>retry-after\<close> header.
\<close>

record http_response =
  resp_status_code :: int
  resp_content :: string
  resp_json :: "py_error + pyval"
  resp_retry_after :: "string option"

text \<open>The call \<^verbatim>\<open>self._http.request(method, self._url(path), ..., headers=merged_headers)\<close>.\<close>

definition request_sent ::
  "whatsapp_client \<Rightarrow> string \<Rightarrow> string \<Rightarrow> pyval option \<Rightarrow> pyval option \<Rightarrow> pyval option \<Rightarrow>
   pyval option \<Rightarrow> headers option \<Rightarrow> http_request" where
  "request_sent c method path json params data files hdrs =
     \<lparr>req_method = method, req_url = url_of c path, req_json = json, req_params = params,
      req_data = data, req_files = files, req_headers = merged_headers c hdrs\<rparr>"

datatype request_error = Raised py_error | GraphApiError graph_api_error

datatype request_result = RawResponse http_response | Body pyval

text \<open>
  \<^verbatim>\<open>WhatsAppClient.request\<close>: send; in raw mode return the response; else decode a
  non-empty body, raise the API error from status 400 on, and return the body with
  snake-case keys.
\<close>

definition request ::
  "(http_request \<Rightarrow> http_response) \<Rightarrow> whatsapp_client \<Rightarrow> string \<Rightarrow> string \<Rightarrow> pyval option \<Rightarrow>
   pyval option \<Rightarrow> pyval option \<Rightarrow> pyval option \<Rightarrow> headers option \<Rightarrow> bool \<Rightarrow>
   request_error + request_result" where
  "request http c method path json params data files hdrs raw_response =
     (let resp = http (request_sent c method path json params data files hdrs)
      in if raw_response then Inr (RawResponse resp)
         else case (if resp_content resp \<noteq> [] then resp_json resp else Inr (PDict [])) of
                Inl e \<Rightarrow> Inl (Raised e)
              | Inr body \<Rightarrow>
                  if 400 \<le> resp_status_code resp then
                    (case from_response (resp_status_code resp) body (resp_retry_after resp) of
                       Inl e \<Rightarrow> Inl (Raised e)
                     | Inr err \<Rightarrow> Inl (GraphApiError err))
                  else (case to_snake_deep body of
                          Inl e \<Rightarrow> Inl (Raised e)
                        | Inr b \<Rightarrow> Inr (Body b)))"

section \<open>Webhook types (types.py)\<close>

text \<open>
  The pydantic models of the webhook, as records. A field typed
  \<^verbatim>\<open>dict[str, Any] | None\<close> is an optional dictionary; \<open>wm_extra\<close> and \<open>msu_extra\<close> hold the
  keys kept by \<^verbatim>\<open>extra="allow"\<close>.
\<close>

record webhook_message_context =
  wmc_id :: "string option"
  wmc_from :: "string option"
  wmc_referred_product :: "pydict option"

record webhook_message =
  wm_id :: string
  wm_type :: string
  wm_timestamp :: string
  wm_from :: "string option"
  wm_to :: "string option"
  wm_context :: "webhook_message_context option"
  wm_text :: "pydict option"
  wm_image :: "pydict option"
  wm_video :: "pydict option"
  wm_audio :: "pydict option"
  wm_document :: "pydict option"
  wm_location :: "pydict option"
  wm_interactive :: "pydict option"
  wm_template :: "pydict option"
  wm_order :: "pydict option"
  wm_sticker :: "pydict option"
  wm_contacts :: "pydict list option"
  wm_reaction :: "pydict option"
  wm_button :: "pydict option"
  wm_referral :: "pydict option"
  wm_extra :: pydict

record message_status_update =
  msu_id :: string
  msu_status :: string
  msu_timestamp :: string
  msu_recipient_id :: "string option"
  msu_conversation :: "pydict option"
  msu_pricing :: "pydict option"
  msu_errors :: "pydict list option"
  msu_extra :: pydict

record normalized_webhook =
  nw_object :: "string option"
  nw_phone_number_id :: "string option"
  nw_display_phone_number :: "string option"
  nw_contacts :: "pydict list"
  nw_messages :: "webhook_message list"
  nw_statuses :: "message_status_update list"
  nw_raw :: "(string \<times> pydict list) list"

text \<open>
  \<^verbatim>\<open>model_dump(exclude_none=True)\<close>: the fields that are not \<^verbatim>\<open>None\<close>, in declaration
  order and under their field names, then the extra keys that are not \<^verbatim>\<open>None\<close>.
\<close>

definition opt_item :: "string \<Rightarrow> 'a option \<Rightarrow> ('a \<Rightarrow> pyval) \<Rightarrow> pydict" where
  "opt_item k v f = (case v of None \<Rightarrow> [] | Some x \<Rightarrow> [(PStr k, f x)])"

definition context_dump :: "webhook_message_context \<Rightarrow> pydict" where
  "context_dump c =
     opt_item ''id'' (wmc_id c) PStr @ opt_item ''from_'' (wmc_from c) PStr
     @ opt_item ''referred_product'' (wmc_referred_product c) PDict"

definition message_dump :: "webhook_message \<Rightarrow> pydict" where
  "message_dump m =
     [(PStr ''id'', PStr (wm_id m)), (PStr ''type'', PStr (wm_type m)),
      (PStr ''timestamp'', PStr (wm_timestamp m))]
     @ opt_item ''from_'' (wm_from m) PStr
     @ opt_item ''to'' (wm_to m) PStr
     @ opt_item ''context'' (wm_context m) (\<lambda>c. PDict (context_dump c))
     @ opt_item ''text'' (wm_text m) PDict
     @ opt_item ''image'' (wm_image m) PDict
     @ opt_item ''video'' (wm_video m) PDict
     @ opt_item ''audio'' (wm_audio m) PDict
     @ opt_item ''document'' (wm_document m) PDict
     @ opt_item ''location'' (wm_location m) PDict
     @ opt_item ''interactive'' (wm_interactive m) PDict
     @ opt_item ''template'' (wm_template m) PDict
     @ opt_item ''order'' (wm_order m) PDict
     @ opt_item ''sticker'' (wm_sticker m) PDict
     @ opt_item ''contacts'' (wm_contacts m) (\<lambda>cs. PList (map PDict cs))
     @ opt_item ''reaction'' (wm_reaction m) PDict
     @ opt_item ''button'' (wm_button m) PDict
     @ opt_item ''referral'' (wm_referral m) PDict
     @ filter (\<lambda>kv. snd kv \<noteq> PNone) (wm_extra m)"

section \<open>Events (events/events.py)\<close>

text \<open>
  The frozen dataclasses of the events. The fields of the two base classes are records;
  each concrete class is a constructor that takes its base and then its own fields in
  declaration order. A dataclass does not validate, so a field filled from a payload
  holds any value.
\<close>

record message_base =
  mb_phone_number_id :: "string option"
  mb_message_id :: string
  mb_timestamp :: string
  mb_from_number :: string
  mb_context :: "pydict option"

record status_base =
  sb_phone_number_id :: "string option"
  sb_message_id :: string
  sb_timestamp :: string
  sb_recipient_id :: string
  sb_conversation :: "pydict option"
  sb_pricing :: "pydict option"

datatype whatsapp_event =
    TextReceived message_base pyval bool
      \<comment> \<open>body, preview_url\<close>
  | ImageReceived message_base pyval pyval pyval pyval
      \<comment> \<open>image_id, mime_type, sha256, caption\<close>
  | VideoReceived message_base pyval pyval pyval pyval
      \<comment> \<open>video_id, mime_type, sha256, caption\<close>
  | AudioReceived message_base pyval pyval pyval pyval
      \<comment> \<open>audio_id, mime_type, sha256, voice\<close>
  | DocumentReceived message_base pyval pyval pyval pyval pyval
      \<comment> \<open>document_id, mime_type, sha256, filename, caption\<close>
  | StickerReceived message_base pyval pyval pyval
      \<comment> \<open>sticker_id, mime_type, animated\<close>
  | LocationReceived message_base pyval pyval pyval pyval
      \<comment> \<open>latitude, longitude, name, address\<close>
  | ContactsReceived message_base "pydict list"
      \<comment> \<open>contacts\<close>
  | ReactionReceived message_base pyval pyval
      \<comment> \<open>emoji, reacted_message_id\<close>
  | ButtonReply message_base pyval pyval
      \<comment> \<open>button_id, button_title\<close>
  | ListReply message_base pyval pyval pyval
      \<comment> \<open>list_id, list_title, list_description\<close>
  | FlowResponse message_base pyval pyval
      \<comment> \<open>response_json, flow_token\<close>
  | OrderReceived message_base pyval pyval pyval
      \<comment> \<open>catalog_id, product_items, order_text\<close>
  | MessageSent status_base
  | MessageDelivered status_base
  | MessageRead status_base
  | MessageFailed status_base "pydict list"
      \<comment> \<open>errors\<close>
  | UnknownMessageReceived message_base string pydict
      \<comment> \<open>raw_type, raw_data\<close>

section \<open>Event mapper and dispatcher (events/dispatcher.py)\<close>

text \<open>
  \<^verbatim>\<open>_base_kwargs\<close>. A model instance is always true, so \<^verbatim>\<open>if msg.context\<close> tests for
  \<^verbatim>\<open>None\<close>; \<^verbatim>\<open>ctx or None\<close> turns an empty dump into \<^verbatim>\<open>None\<close>.
\<close>

definition base_kwargs :: "webhook_message \<Rightarrow> string option \<Rightarrow> message_base" where
  "base_kwargs msg phone_number_id =
     (let ctx = (case wm_context msg of None \<Rightarrow> None | Some c \<Rightarrow> Some (context_dump c))
      in \<lparr>mb_phone_number_id = phone_number_id,
          mb_message_id = wm_id msg,
          mb_timestamp = wm_timestamp msg,
          mb_from_number = (case wm_from msg of None \<Rightarrow> [] | Some s \<Rightarrow> s),
          mb_context = (case ctx of None \<Rightarrow> None | Some d \<Rightarrow> if d = [] then None else Some d)\<rparr>)"

text \<open>\<^verbatim>\<open>payload or {}\<close> for an optional dictionary, \<^verbatim>\<open>msg.contacts or []\<close> for the list.\<close>

definition or_empty :: "'a list option \<Rightarrow> 'a list" where
  "or_empty d = (case d of None \<Rightarrow> [] | Some kvs \<Rightarrow> kvs)"

text \<open>
  \<^verbatim>\<open>f"interactive:{itype}"\<close>. The text of a value that is not a string is what the
  built-in \<^verbatim>\<open>str\<close> gives; it is the parameter \<open>py_str\<close>.
\<close>

definition interactive_tag :: "(pyval \<Rightarrow> string) \<Rightarrow> pyval \<Rightarrow> string" where
  "interactive_tag py_str itype =
     ''interactive:'' @ (case itype of PStr s \<Rightarrow> s | v \<Rightarrow> py_str v)"

text \<open>
  \<^verbatim>\<open>_map_interactive\<close>. The reply is \<^verbatim>\<open>interactive.get(key, {})\<close>, whatever the payload
  holds there, and each field is read with \<^verbatim>\<open>reply.get\<close>. \<open>loads\<close> is \<^verbatim>\<open>json.loads\<close>;
  its \<^verbatim>\<open>JSONDecodeError\<close> and \<^verbatim>\<open>TypeError\<close> are caught.
\<close>

definition map_interactive ::
  "(string \<Rightarrow> py_error + pyval) \<Rightarrow> (pyval \<Rightarrow> string) \<Rightarrow> webhook_message \<Rightarrow> message_base \<Rightarrow>
   py_error + whatsapp_event" where
  "map_interactive loads py_str msg base =
     (let interactive = or_empty (wm_interactive msg);
          itype = dict_get interactive ''type'' (PStr '''')
      in if itype = PStr ''button_reply'' then
           (let reply = dict_get interactive ''button_reply'' (PDict [])
            in case py_get reply ''id'' (PStr '''') of
                 Inl e \<Rightarrow> Inl e
               | Inr button_id \<Rightarrow>
                   (case py_get reply ''title'' (PStr '''') of
                      Inl e \<Rightarrow> Inl e
                    | Inr button_title \<Rightarrow> Inr (ButtonReply base button_id button_title)))
         else if itype = PStr ''list_reply'' then
           (let reply = dict_get interactive ''list_reply'' (PDict [])
            in case py_get reply ''id'' (PStr '''') of
                 Inl e \<Rightarrow> Inl e
               | Inr list_id \<Rightarrow>
                   (case py_get reply ''title'' (PStr '''') of
                      Inl e \<Rightarrow> Inl e
                    | Inr list_title \<Rightarrow>
                        (case py_get reply ''description'' PNone of
                           Inl e \<Rightarrow> Inl e
                         | Inr list_description \<Rightarrow>
                             Inr (ListReply base list_id list_title list_description))))
         else if itype = PStr ''nfm_reply'' then
           (let reply = dict_get interactive ''nfm_reply'' (PDict [])
            in case py_get reply ''response_json'' (PDict []) of
                 Inl e \<Rightarrow> Inl e
               | Inr rj \<Rightarrow>
                   (case (case rj of
                            PStr s \<Rightarrow>
                              (case loads s of
                                 Inr v \<Rightarrow> Inr v
                               | Inl e \<Rightarrow> if e = JSONDecodeError \<or> e = TypeError
                                           then Inr (PDict []) else Inl e)
                          | v \<Rightarrow> Inr v) of
                      Inl e \<Rightarrow> Inl e
                    | Inr response_json \<Rightarrow>
                        (case py_get reply ''flow_token'' PNone of
                           Inl e \<Rightarrow> Inl e
                         | Inr flow_token \<Rightarrow> Inr (FlowResponse base response_json flow_token))))
         else Inr (UnknownMessageReceived base (interactive_tag py_str itype) interactive))"

text \<open>\<^verbatim>\<open>_map_message\<close>: the \<^verbatim>\<open>match msg.type\<close>, case by case in source order.\<close>

definition map_message ::
  "(string \<Rightarrow> py_error + pyval) \<Rightarrow> (pyval \<Rightarrow> string) \<Rightarrow> webhook_message \<Rightarrow> string option \<Rightarrow>
   py_error + whatsapp_event" where
  "map_message loads py_str msg phone_number_id =
     (let base = base_kwargs msg phone_number_id
      in if wm_type msg = ''text'' then
           (let text = or_empty (wm_text msg)
            in Inr (TextReceived base (dict_get text ''body'' (PStr '''')) False))
         else if wm_type msg = ''image'' then
           (let img = or_empty (wm_image msg)
            in Inr (ImageReceived base (dict_get img ''id'' (PStr ''''))
                      (dict_get img ''mime_type'' (PStr '''')) (dict_get img ''sha256'' (PStr ''''))
                      (dict_get img ''caption'' PNone)))
         else if wm_type msg = ''video'' then
           (let vid = or_empty (wm_video msg)
            in Inr (VideoReceived base (dict_get vid ''id'' (PStr ''''))
                      (dict_get vid ''mime_type'' (PStr '''')) (dict_get vid ''sha256'' (PStr ''''))
                      (dict_get vid ''caption'' PNone)))
         else if wm_type msg = ''audio'' then
           (let aud = or_empty (wm_audio msg)
            in Inr (AudioReceived base (dict_get aud ''id'' (PStr ''''))
                      (dict_get aud ''mime_type'' (PStr '''')) (dict_get aud ''sha256'' (PStr ''''))
                      (dict_get aud ''voice'' (PBool False))))
         else if wm_type msg = ''document'' then
           (let doc = or_empty (wm_document msg)
            in Inr (DocumentReceived base (dict_get doc ''id'' (PStr ''''))
                      (dict_get doc ''mime_type'' (PStr '''')) (dict_get doc ''sha256'' (PStr ''''))
                      (dict_get doc ''filename'' PNone) (dict_get doc ''caption'' PNone)))
         else if wm_type msg = ''sticker'' then
           (let stk = or_empty (wm_sticker msg)
            in Inr (StickerReceived base (dict_get stk ''id'' (PStr ''''))
                      (dict_get stk ''mime_type'' (PStr ''''))
                      (dict_get stk ''animated'' (PBool False))))
         else if wm_type msg = ''location'' then
           (let loc = or_empty (wm_location msg)
            in Inr (LocationReceived base (dict_get loc ''latitude'' (PFloat (Finite 0 0)))
                      (dict_get loc ''longitude'' (PFloat (Finite 0 0)))
                      (dict_get loc ''name'' PNone) (dict_get loc ''address'' PNone)))
         else if wm_type msg = ''contacts'' then
           Inr (ContactsReceived base (or_empty (wm_contacts msg)))
         else if wm_type msg = ''reaction'' then
           (let rxn = or_empty (wm_reaction msg)
            in Inr (ReactionReceived base (dict_get rxn ''emoji'' PNone)
                      (dict_get rxn ''message_id'' (PStr ''''))))
         else if wm_type msg = ''interactive'' then map_interactive loads py_str msg base
         else if wm_type msg = ''order'' then
           (let order = or_empty (wm_order msg)
            in Inr (OrderReceived base (dict_get order ''catalog_id'' (PStr ''''))
                      (dict_get order ''product_items'' (PList []))
                      (dict_get order ''order_text'' PNone)))
         else Inr (UnknownMessageReceived base (wm_type msg) (message_dump msg)))"

text \<open>
  The body of the status loop of \<^verbatim>\<open>dispatch_webhook\<close>: the base fields, then the
  \<^verbatim>\<open>match status.status\<close>.
\<close>

definition status_base_of :: "string option \<Rightarrow> message_status_update \<Rightarrow> status_base" where
  "status_base_of pid status =
     \<lparr>sb_phone_number_id = pid,
      sb_message_id = msu_id status,
      sb_timestamp = msu_timestamp status,
      sb_recipient_id = (case msu_recipient_id status of None \<Rightarrow> [] | Some s \<Rightarrow> s),
      sb_conversation = msu_conversation status,
      sb_pricing = msu_pricing status\<rparr>"

definition status_event :: "string option \<Rightarrow> message_status_update \<Rightarrow> whatsapp_event" where
  "status_event pid status =
     (let base = status_base_of pid status
      in if msu_status status = ''sent'' then MessageSent base
         else if msu_status status = ''delivered'' then MessageDelivered base
         else if msu_status status = ''read'' then MessageRead base
         else if msu_status status = ''failed'' then
           MessageFailed base (or_empty (msu_errors status))
         else MessageSent base)"

text \<open>
  \<^verbatim>\<open>dispatch_webhook\<close>. The emitter is the list of the events emitted so far;
  \<^verbatim>\<open>emitter.emit(event)\<close> appends to it. When mapping a message raises, the result is
  the exception with the events emitted before it.
\<close>

fun emit_messages ::
  "(string \<Rightarrow> py_error + pyval) \<Rightarrow> (pyval \<Rightarrow> string) \<Rightarrow> string option \<Rightarrow> webhook_message list \<Rightarrow>
   whatsapp_event list \<Rightarrow> (py_error \<times> whatsapp_event list) + whatsapp_event list" where
  "emit_messages loads py_str pid [] emitted = Inr emitted"
| "emit_messages loads py_str pid (msg # msgs) emitted =
     (case map_message loads py_str msg pid of
        Inl e \<Rightarrow> Inl (e, emitted)
      | Inr event \<Rightarrow> emit_messages loads py_str pid msgs (emitted @ [event]))"

fun emit_statuses ::
  "string option \<Rightarrow> message_status_update list \<Rightarrow> whatsapp_event list \<Rightarrow> whatsapp_event list" where
  "emit_statuses pid [] emitted = emitted"
| "emit_statuses pid (status # statuses) emitted =
     emit_statuses pid statuses (emitted @ [status_event pid status])"

definition dispatch_webhook ::
  "(string \<Rightarrow> py_error + pyval) \<Rightarrow> (pyval \<Rightarrow> string) \<Rightarrow> normalized_webhook \<Rightarrow>
   whatsapp_event list \<Rightarrow> (py_error \<times> whatsapp_event list) + whatsapp_event list" where
  "dispatch_webhook loads py_str webhook emitted =
     (let pid = nw_phone_number_id webhook
      in case emit_messages loads py_str pid (nw_messages webhook) emitted of
           Inl err \<Rightarrow> Inl err
         | Inr emitted' \<Rightarrow> Inr (emit_statuses pid (nw_statuses webhook) emitted'))"

section \<open>Model validation (pydantic)\<close>

text \<open>
  \<^verbatim>\<open>Model.model_validate(d)\<close> on decoded JSON, for the field types of the webhook models.
  A field is read under its alias (the camel-case name made by the alias generator) or,
  by \<^verbatim>\<open>populate_by_name\<close>, under its name. A string field accepts a string only, a
  dictionary field a dictionary with string keys, and an optional field also a missing
  key or \<^verbatim>\<open>None\<close>. Any invalid field makes the call raise \<^verbatim>\<open>ValidationError\<close>; here a
  validator returns \<open>None\<close> for it.
\<close>

fun is_str :: "pyval \<Rightarrow> bool" where
  "is_str (PStr s) = True"
| "is_str v = False"

definition field_value :: "pydict \<Rightarrow> string \<Rightarrow> string \<Rightarrow> pyval option" where
  "field_value d alias name =
     (case map_of d (PStr alias) of Some v \<Rightarrow> Some v | None \<Rightarrow> map_of d (PStr name))"

definition required :: "pydict \<Rightarrow> string \<Rightarrow> string \<Rightarrow> (pyval \<Rightarrow> 'a option) \<Rightarrow> 'a option" where
  "required d alias name conv =
     (case field_value d alias name of None \<Rightarrow> None | Some v \<Rightarrow> conv v)"

definition optional ::
  "pydict \<Rightarrow> string \<Rightarrow> string \<Rightarrow> (pyval \<Rightarrow> 'a option) \<Rightarrow> 'a option option" where
  "optional d alias name conv =
     (case field_value d alias name of
        None \<Rightarrow> Some None
      | Some v \<Rightarrow> if v = PNone then Some None else map_option Some (conv v))"

fun str_value :: "pyval \<Rightarrow> string option" where
  "str_value (PStr s) = Some s"
| "str_value v = None"

fun dict_value :: "pyval \<Rightarrow> pydict option" where
  "dict_value (PDict d) = (if \<forall>kv \<in> set d. is_str (fst kv) then Some d else None)"
| "dict_value v = None"

fun all_values :: "('a \<Rightarrow> 'b option) \<Rightarrow> 'a list \<Rightarrow> 'b list option" where
  "all_values conv [] = Some []"
| "all_values conv (x # xs) =
     (case conv x of
        None \<Rightarrow> None
      | Some y \<Rightarrow> (case all_values conv xs of None \<Rightarrow> None | Some ys \<Rightarrow> Some (y # ys)))"

fun dict_list_value :: "pyval \<Rightarrow> pydict list option" where
  "dict_list_value (PList xs) = all_values dict_value xs"
| "dict_list_value v = None"

fun context_value :: "pyval \<Rightarrow> webhook_message_context option" where
  "context_value (PDict d) =
     do {
       i \<leftarrow> optional d ''id'' ''id'' str_value;
       f \<leftarrow> optional d ''from'' ''from_'' str_value;
       r \<leftarrow> optional d ''referredProduct'' ''referred_product'' dict_value;
       Some \<lparr>wmc_id = i, wmc_from = f, wmc_referred_product = r\<rparr>
     }"
| "context_value v = None"

text \<open>
  The keys of the input that the fields of a model consume: a field with an alias of its
  own consumes the alias when that key is present and its name otherwise. With
  \<^verbatim>\<open>extra="allow"\<close> every other key of the input is kept as an extra.
\<close>

definition used_key :: "pydict \<Rightarrow> string \<Rightarrow> string \<Rightarrow> string" where
  "used_key d alias name = (if map_of d (PStr alias) \<noteq> None then alias else name)"

definition message_fields :: "pydict \<Rightarrow> string list" where
  "message_fields d =
     [''id'', ''type'', ''timestamp'', used_key d ''from'' ''from_'', ''to'', ''context'',
      ''text'', ''image'', ''video'', ''audio'', ''document'', ''location'', ''interactive'',
      ''template'', ''order'', ''sticker'', ''contacts'', ''reaction'', ''button'',
      ''referral'']"

definition extra_items :: "string list \<Rightarrow> pydict \<Rightarrow> pydict" where
  "extra_items names d = filter (\<lambda>kv. fst kv \<notin> PStr ` set names) d"

fun validate_message :: "pyval \<Rightarrow> py_error + webhook_message" where
  "validate_message (PDict d) =
     (case do {
        i \<leftarrow> required d ''id'' ''id'' str_value;
        t \<leftarrow> required d ''type'' ''type'' str_value;
        ts \<leftarrow> required d ''timestamp'' ''timestamp'' str_value;
        fr \<leftarrow> optional d ''from'' ''from_'' str_value;
        to \<leftarrow> optional d ''to'' ''to'' str_value;
        ctx \<leftarrow> optional d ''context'' ''context'' context_value;
        text \<leftarrow> optional d ''text'' ''text'' dict_value;
        image \<leftarrow> optional d ''image'' ''image'' dict_value;
        video \<leftarrow> optional d ''video'' ''video'' dict_value;
        audio \<leftarrow> optional d ''audio'' ''audio'' dict_value;
        document \<leftarrow> optional d ''document'' ''document'' dict_value;
        location \<leftarrow> optional d ''location'' ''location'' dict_value;
        interactive \<leftarrow> optional d ''interactive'' ''interactive'' dict_value;
        template \<leftarrow> optional d ''template'' ''template'' dict_value;
        order \<leftarrow> optional d ''order'' ''order'' dict_value;
        sticker \<leftarrow> optional d ''sticker'' ''sticker'' dict_value;
        contacts \<leftarrow> optional d ''contacts'' ''contacts'' dict_list_value;
        reaction \<leftarrow> optional d ''reaction'' ''reaction'' dict_value;
        button \<leftarrow> optional d ''button'' ''button'' dict_value;
        referral \<leftarrow> optional d ''referral'' ''referral'' dict_value;
        Some \<lparr>wm_id = i, wm_type = t, wm_timestamp = ts, wm_from = fr, wm_to = to,
              wm_context = ctx, wm_text = text, wm_image = image, wm_video = video,
              wm_audio = audio, wm_document = document, wm_location = location,
              wm_interactive = interactive, wm_template = template, wm_order = order,
              wm_sticker = sticker, wm_contacts = contacts, wm_reaction = reaction,
              wm_button = button, wm_referral = referral,
              wm_extra = extra_items (message_fields d) d\<rparr>
      } of
        None \<Rightarrow> Inl ValidationError
      | Some m \<Rightarrow> Inr m)"
| "validate_message v = Inl ValidationError"

definition status_fields :: "pydict \<Rightarrow> string list" where
  "status_fields d =
     [''id'', ''status'', ''timestamp'', used_key d ''recipientId'' ''recipient_id'',
      ''conversation'', ''pricing'', ''errors'']"

fun validate_status :: "pyval \<Rightarrow> py_error + message_status_update" where
  "validate_status (PDict d) =
     (case do {
        i \<leftarrow> required d ''id'' ''id'' str_value;
        s \<leftarrow> required d ''status'' ''status'' str_value;
        ts \<leftarrow> required d ''timestamp'' ''timestamp'' str_value;
        r \<leftarrow> optional d ''recipientId'' ''recipient_id'' str_value;
        conversation \<leftarrow> optional d ''conversation'' ''conversation'' dict_value;
        pricing \<leftarrow> optional d ''pricing'' ''pricing'' dict_value;
        errors \<leftarrow> optional d ''errors'' ''errors'' dict_list_value;
        Some \<lparr>msu_id = i, msu_status = s, msu_timestamp = ts, msu_recipient_id = r,
              msu_conversation = conversation, msu_pricing = pricing, msu_errors = errors,
              msu_extra = extra_items (status_fields d) d\<rparr>
      } of
        None \<Rightarrow> Inl ValidationError
      | Some m \<Rightarrow> Inr m)"
| "validate_status v = Inl ValidationError"

section \<open>Webhook normalizer (webhooks/normalize.py)\<close>

text \<open>Sequencing of calls that may raise: the first exception ends the computation.\<close>

definition and_then :: "py_error + 'a \<Rightarrow> ('a \<Rightarrow> py_error + 'b) \<Rightarrow> py_error + 'b" where
  "and_then m f = (case m of Inl e \<Rightarrow> Inl e | Inr x \<Rightarrow> f x)"

text \<open>A \<^verbatim>\<open>for\<close> loop over a list whose body updates the state or raises.\<close>

fun for_each :: "('a \<Rightarrow> 's \<Rightarrow> py_error + 's) \<Rightarrow> 'a list \<Rightarrow> 's \<Rightarrow> py_error + 's" where
  "for_each body [] st = Inr st"
| "for_each body (x # xs) st =
     (case body x st of Inl e \<Rightarrow> Inl e | Inr st' \<Rightarrow> for_each body xs st')"

text \<open>The local variables of \<^verbatim>\<open>normalize_webhook\<close> that the loops update.\<close>

record norm_state =
  ns_messages :: "webhook_message list"
  ns_statuses :: "message_status_update list"
  ns_contacts :: "pyval list"
  ns_raw :: "(pyval \<times> pyval list) list"
  ns_phone_number_id :: pyval
  ns_display_phone_number :: pyval

definition initial_state :: norm_state where
  "initial_state =
     \<lparr>ns_messages = [], ns_statuses = [], ns_contacts = [], ns_raw = [],
      ns_phone_number_id = PNone, ns_display_phone_number = PNone\<rparr>"

fun hashable :: "pyval \<Rightarrow> bool" where
  "hashable (PList xs) = False"
| "hashable (PDict kvs) = False"
| "hashable v = True"

text \<open>\<^verbatim>\<open>raw.setdefault(field, []).append(v)\<close>.\<close>

definition raw_append :: "pyval \<Rightarrow> pyval \<Rightarrow> (pyval \<times> pyval list) list \<Rightarrow> (pyval \<times> pyval list) list" where
  "raw_append field v raw =
     (case map_of raw field of
        None \<Rightarrow> raw @ [(field, [v])]
      | Some vs \<Rightarrow> AList.update field (vs @ [v]) raw)"

fun contains :: "string \<Rightarrow> string \<Rightarrow> bool" where
  "contains p [] = (p = [])"
| "contains p (c # cs) = (take (length p) (c # cs) = p \<or> contains p cs)"

text \<open>
  \<^verbatim>\<open>if "from" in normalized: normalized.setdefault("from_", normalized.pop("from", None))\<close>.
  On a dictionary the key is moved. The membership test also answers on a string
  (substring) and on a list (element); these have no \<^verbatim>\<open>setdefault\<close>, and its lookup,
  which comes before the argument is evaluated, raises \<^verbatim>\<open>AttributeError\<close>. On the
  other values the test itself raises \<^verbatim>\<open>TypeError\<close>.
\<close>

fun rename_from :: "pyval \<Rightarrow> py_error + pyval" where
  "rename_from (PDict d) =
     Inr (PDict (if map_of d (PStr ''from'') \<noteq> None then
                   (let v = dict_get d ''from'' PNone;
                        d' = AList.delete (PStr ''from'') d
                    in if map_of d' (PStr ''from_'') \<noteq> None then d'
                       else d' @ [(PStr ''from_'', v)])
                 else d))"
| "rename_from (PStr s) = (if contains ''from'' s then Inl AttributeError else Inr (PStr s))"
| "rename_from (PList xs) =
     (if PStr ''from'' \<in> set xs then Inl AttributeError else Inr (PList xs))"
| "rename_from v = Inl TypeError"

definition process_contact :: "pyval \<Rightarrow> norm_state \<Rightarrow> py_error + norm_state" where
  "process_contact c st =
     and_then (to_snake_deep c) (\<lambda>c'. Inr (st\<lparr>ns_contacts := ns_contacts st @ [c']\<rparr>))"

definition process_message :: "pyval \<Rightarrow> norm_state \<Rightarrow> py_error + norm_state" where
  "process_message msg st =
     and_then (to_snake_deep msg) (\<lambda>normalized.
     and_then (rename_from normalized) (\<lambda>normalized'.
     and_then (validate_message normalized') (\<lambda>m.
     Inr (st\<lparr>ns_messages := ns_messages st @ [m]\<rparr>))))"

definition process_status :: "pyval \<Rightarrow> norm_state \<Rightarrow> py_error + norm_state" where
  "process_status status st =
     and_then (to_snake_deep status) (\<lambda>normalized.
     and_then (validate_status normalized) (\<lambda>s.
     Inr (st\<lparr>ns_statuses := ns_statuses st @ [s]\<rparr>)))"

text \<open>
  The metadata step of a \<^verbatim>\<open>messages\<close> change: under \<^verbatim>\<open>if not phone_number_id\<close> both
  variables are assigned from the metadata.
\<close>

definition take_metadata :: "pyval \<Rightarrow> norm_state \<Rightarrow> py_error + norm_state" where
  "take_metadata metadata st =
     (if \<not> truthy (ns_phone_number_id st) then
        and_then (py_get metadata ''phone_number_id'' PNone) (\<lambda>p.
        and_then (py_get metadata ''display_phone_number'' PNone) (\<lambda>dn.
        Inr (st\<lparr>ns_phone_number_id := p, ns_display_phone_number := dn\<rparr>)))
      else Inr st)"

text \<open>The body of the loop over the changes of an entry.\<close>

definition process_change :: "pyval \<Rightarrow> norm_state \<Rightarrow> py_error + norm_state" where
  "process_change change st =
     and_then (py_get change ''value'' (PDict [])) (\<lambda>val.
     and_then (py_get change ''field'' (PStr '''')) (\<lambda>field.
     if field \<noteq> PStr ''messages'' then
       (if hashable field then
          and_then (to_snake_deep val) (\<lambda>v. Inr (st\<lparr>ns_raw := raw_append field v (ns_raw st)\<rparr>))
        else Inl TypeError)
     else
       and_then (py_get val ''metadata'' (PDict [])) (\<lambda>metadata.
       and_then (take_metadata metadata st) (\<lambda>st1.
       and_then (py_get val ''contacts'' (PList [])) (\<lambda>contacts.
       and_then (py_iter contacts) (\<lambda>cs.
       and_then (for_each process_contact cs st1) (\<lambda>st2.
       and_then (py_get val ''messages'' (PList [])) (\<lambda>messages.
       and_then (py_iter messages) (\<lambda>ms.
       and_then (for_each process_message ms st2) (\<lambda>st3.
       and_then (py_get val ''statuses'' (PList [])) (\<lambda>statuses.
       and_then (py_iter statuses) (\<lambda>ss.
       for_each process_status ss st3))))))))))))"

definition process_entry :: "pyval \<Rightarrow> norm_state \<Rightarrow> py_error + norm_state" where
  "process_entry entry st =
     and_then (py_get entry ''changes'' (PList [])) (\<lambda>changes.
     and_then (py_iter changes) (\<lambda>cs.
     for_each process_change cs st))"

text \<open>
  The construction of the \<^verbatim>\<open>NormalizedWebhook\<close>, which validates its arguments: the
  three optional strings, the contacts as dictionaries, \<^verbatim>\<open>raw\<close> as lists of
  dictionaries under string keys. The messages and statuses are model instances
  already.
\<close>

fun raw_value :: "(pyval \<times> pyval list) list \<Rightarrow> (string \<times> pydict list) list option" where
  "raw_value [] = Some []"
| "raw_value ((k, vs) # kvs) =
     do {
       key \<leftarrow> str_value k;
       ds \<leftarrow> all_values dict_value vs;
       rest \<leftarrow> raw_value kvs;
       Some ((key, ds) # rest)
     }"

definition opt_str_value :: "pyval \<Rightarrow> string option option" where
  "opt_str_value v = (if v = PNone then Some None else map_option Some (str_value v))"

definition normalized_webhook_init :: "pyval \<Rightarrow> norm_state \<Rightarrow> py_error + normalized_webhook" where
  "normalized_webhook_init obj st =
     (case do {
        ob \<leftarrow> opt_str_value obj;
        pid \<leftarrow> opt_str_value (ns_phone_number_id st);
        dpn \<leftarrow> opt_str_value (ns_display_phone_number st);
        contacts \<leftarrow> all_values dict_value (ns_contacts st);
        raw \<leftarrow> raw_value (ns_raw st);
        Some \<lparr>nw_object = ob, nw_phone_number_id = pid, nw_display_phone_number = dpn,
              nw_contacts = contacts, nw_messages = ns_messages st,
              nw_statuses = ns_statuses st, nw_raw = raw\<rparr>
      } of
        None \<Rightarrow> Inl ValidationError
      | Some w \<Rightarrow> Inr w)"

text \<open>\<^verbatim>\<open>NormalizedWebhook()\<close>, the result for a payload that is not a dictionary.\<close>

definition empty_webhook :: normalized_webhook where
  "empty_webhook =
     \<lparr>nw_object = None, nw_phone_number_id = None, nw_display_phone_number = None,
      nw_contacts = [], nw_messages = [], nw_statuses = [], nw_raw = []\<rparr>"

fun normalize_webhook :: "pyval \<Rightarrow> py_error + normalized_webhook" where
  "normalize_webhook (PDict payload) =
     (let obj = dict_get payload ''object'' PNone;
          entries = dict_get payload ''entry'' (PList [])
      in and_then (py_iter entries) (\<lambda>es.
         and_then (for_each process_entry es initial_state) (\<lambda>st.
         normalized_webhook_init obj st)))"
| "normalize_webhook payload = Inr empty_webhook"

section \<open>Predicates used in the statements\<close>

text \<open>A string holds a match of \<^verbatim>\<open>_[a-z0-9]\<close>: \<open>to_camel\<close> has something to replace.\<close>

fun camel_match :: "string \<Rightarrow> bool" where
  "camel_match (c # d # cs) =
     ((c = CHR ''_'' \<and> (is_lower d \<or> is_digit d)) \<or> camel_match (d # cs))"
| "camel_match cs = False"

text \<open>A string holds two underscores followed by a digit.\<close>

fun has_uu_digit :: "string \<Rightarrow> bool" where
  "has_uu_digit (a # b # c # cs) =
     ((a = CHR ''_'' \<and> b = CHR ''_'' \<and> is_digit c) \<or> has_uu_digit (b # c # cs))"
| "has_uu_digit cs = False"



text \<open>
  The metadata a change offers to \<^verbatim>\<open>normalize_webhook\<close>: for a change with field
  \<^verbatim>\<open>messages\<close> whose value and metadata are dictionaries, the pair of
  \<^verbatim>\<open>metadata.phone_number_id\<close> and \<^verbatim>\<open>metadata.display_phone_number\<close> (\<^verbatim>\<open>None\<close> for a
  missing key); nothing for any other change.
\<close>

definition change_metadata :: "pyval \<Rightarrow> (pyval \<times> pyval) option" where
  "change_metadata change =
     (case change of
        PDict c \<Rightarrow>
          if dict_get c ''field'' (PStr '''') = PStr ''messages'' then
            (case dict_get c ''value'' (PDict []) of
               PDict v \<Rightarrow>
                 (case dict_get v ''metadata'' (PDict []) of
                    PDict m \<Rightarrow> Some (dict_get m ''phone_number_id'' PNone,
                                     dict_get m ''display_phone_number'' PNone)
                  | _ \<Rightarrow> None)
             | _ \<Rightarrow> None)
          else None
      | _ \<Rightarrow> None)"

text \<open>The changes of an entry and the metadata offered by a payload, in order.\<close>

definition entry_changes :: "pyval \<Rightarrow> pyval list" where
  "entry_changes entry =
     (case py_get entry ''changes'' (PList []) of
        Inl e \<Rightarrow> []
      | Inr changes \<Rightarrow> (case py_iter changes of Inl e \<Rightarrow> [] | Inr cs \<Rightarrow> cs))"

definition offered_metadata :: "pyval \<Rightarrow> (pyval \<times> pyval) list" where
  "offered_metadata payload =
     (case py_get payload ''entry'' (PList []) of
        Inl e \<Rightarrow> []
      | Inr entries \<Rightarrow>
          (case py_iter entries of
             Inl e \<Rightarrow> []
           | Inr es \<Rightarrow> List.map_filter change_metadata (concat (map entry_changes es))))"

text \<open>
  The pair kept after a list of offers, from the pair held before: a pair whose phone
  number id is true is kept, any other pair is replaced by the next offer.
\<close>

fun kept_metadata :: "pyval \<times> pyval \<Rightarrow> (pyval \<times> pyval) list \<Rightarrow> pyval \<times> pyval" where
  "kept_metadata cur [] = cur"
| "kept_metadata cur (m # ms) = (if truthy (fst cur) then cur else kept_metadata m ms)"

text \<open>An optional string of a model as the Python value it is.\<close>

definition opt_to_py :: "string option \<Rightarrow> pyval" where
  "opt_to_py v = (case v of None \<Rightarrow> PNone | Some s \<Rightarrow> PStr s)"

text \<open>The two metadata variables of the state of \<^verbatim>\<open>normalize_webhook\<close>.\<close>

definition ns_pair :: "norm_state \<Rightarrow> pyval \<times> pyval" where
  "ns_pair st = (ns_phone_number_id st, ns_display_phone_number st)"

section \<open>Properties of the error classifier\<close>

lemma code_to_category_distinct: "distinct (map fst code_to_category)"
  by (simp add: code_to_category_def)

lemma categorize_error_known:
  "map_of code_to_category c = Some cat \<Longrightarrow> categorize_error (Some c) h = cat"
  by (auto simp: categorize_error_def)

lemma categorize_error_fallback:
  "code = None \<or> map_of code_to_category (the code) = None \<Longrightarrow>
   categorize_error code h =
     (if h \<noteq> None \<and> 500 \<le> the h then Server else Unknown)"
  by (auto simp: categorize_error_def dom_def)

text \<open>
  Claim C1. A code that is a key of the table is classified by the table, whatever the
  HTTP status (also a 5xx one); this holds for each of the 43 entries of the table. A
  missing or untabulated code is classified \<open>Server\<close> when the HTTP status is present
  and at least 500, and \<open>Unknown\<close> otherwise. The examples of the specification are
  instances.
\<close>

theorem categorize_error_spec:
  "(map_of code_to_category c = Some cat \<longrightarrow> categorize_error (Some c) h = cat)
   \<and> ((k, kcat) \<in> set code_to_category \<longrightarrow> categorize_error (Some k) h = kcat)
   \<and> (code = None \<or> map_of code_to_category (the code) = None \<longrightarrow>
        categorize_error code (Some s) = (if 500 \<le> s then Server else Unknown)
        \<and> categorize_error code None = Unknown)
   \<and> categorize_error None (Some 500) = Server
   \<and> categorize_error None (Some 502) = Server
   \<and> categorize_error None (Some 400) = Unknown
   \<and> categorize_error None None = Unknown
   \<and> categorize_error (Some 99999) None = Unknown"
proof -
  have entry: "categorize_error (Some k) h = kcat" if "(k, kcat) \<in> set code_to_category"
    using that code_to_category_distinct by (intro categorize_error_known) simp
  have untab: "map_of code_to_category 99999 = None"
    by (simp add: code_to_category_def)
  show ?thesis
    using entry untab categorize_error_fallback [of None]
      categorize_error_fallback [of "Some 99999" None]
    by (auto simp: categorize_error_known categorize_error_fallback)
qed

theorem categorize_error_spec_witness:
  "map_of code_to_category 190 = Some Authorization
   \<and> categorize_error (Some 190) (Some 500) = Authorization
   \<and> (131047, ReengagementWindow) \<in> set code_to_category
   \<and> categorize_error (Some 131047) (Some 500) = ReengagementWindow
   \<and> map_of code_to_category (the (Some 99999)) = None
   \<and> categorize_error (Some 99999) (Some 503) = Server
   \<and> categorize_error (Some 99999) None = Unknown"
proof -
  have a: "map_of code_to_category 190 = Some Authorization"
    by (simp add: code_to_category_def)
  have b: "(131047, ReengagementWindow) \<in> set code_to_category"
    by (simp add: code_to_category_def)
  have c: "map_of code_to_category (the (Some 99999)) = None"
    by (simp add: code_to_category_def)
  show ?thesis
    using a b c
      categorize_error_spec [of 190 Authorization "Some 500" 131047 ReengagementWindow
        "Some 99999" 503]
    by simp
qed

section \<open>Properties of the case converter\<close>

lemma lower_char_not_upper: "\<not> is_upper (lower_char c)"
  by (auto simp: lower_char_def is_upper_def)

lemma lower_char_fixed: "\<not> is_upper c \<Longrightarrow> lower_char c = c"
  by (simp add: lower_char_def)

lemma upper_char_lower: "is_lower d \<Longrightarrow> is_upper (upper_char d)"
  by (auto simp: upper_char_def is_upper_def is_lower_def)

lemma upper_char_digit: "is_digit d \<Longrightarrow> upper_char d = d"
  by (auto simp: upper_char_def is_digit_def is_lower_def)

lemma underscore_class [simp]:
  "\<not> is_lower CHR ''_''" "\<not> is_digit CHR ''_''" "\<not> is_upper CHR ''_''"
  by (simp_all add: is_lower_def is_digit_def is_upper_def)

lemma upper_char_not_underscore: "is_lower d \<or> is_digit d \<Longrightarrow> upper_char d \<noteq> CHR ''_''"
  using upper_char_lower [of d] upper_char_digit [of d] by (metis underscore_class(2,3))

lemma upper_char_alnum_iff:
  "is_lower d \<or> is_digit d \<Longrightarrow>
   (is_lower (upper_char d) \<or> is_digit (upper_char d)) \<longleftrightarrow> is_digit d"
  by (auto simp: upper_char_def is_upper_def is_lower_def is_digit_def)

lemma snake_sub_no_upper: "\<forall>c \<in> set s. \<not> is_upper c \<Longrightarrow> snake_sub s = s"
  by (induction s rule: snake_sub.induct) auto

lemma to_snake_no_upper:
  assumes "\<forall>c \<in> set s. \<not> is_upper c"
  shows "to_snake s = s"
proof -
  have "map lower_char s = s"
    using assms by (induction s) (auto simp: lower_char_fixed)
  then show ?thesis
    using assms by (simp add: to_snake_def snake_sub_no_upper)
qed

lemma to_snake_lowered: "\<forall>c \<in> set (to_snake s). \<not> is_upper c"
  by (auto simp: to_snake_def lower_char_not_upper)

lemma to_snake_idem: "to_snake (to_snake s) = to_snake s"
  using to_snake_lowered by (rule to_snake_no_upper)

lemma length_to_camel: "length (to_camel s) \<le> length s"
  by (induction s rule: to_camel.induct) auto

lemma to_camel_fixed_iff: "to_camel s = s \<longleftrightarrow> \<not> camel_match s"
proof (induction s rule: to_camel.induct)
  case (1 c d cs)
  show ?case
  proof (cases "c = CHR ''_'' \<and> (is_lower d \<or> is_digit d)")
    case True
    have "length (upper_char d # to_camel cs) < length (c # d # cs)"
      using length_to_camel [of cs] by simp
    then have "upper_char d # to_camel cs \<noteq> c # d # cs"
      by force
    with True show ?thesis by simp
  next
    case False
    with 1 show ?thesis by auto
  qed
qed simp_all

text \<open>
  The output of \<open>to_camel\<close> still holds a match exactly when the input holds two
  underscores and a digit: the first underscore is copied, the second one and the digit
  become the digit.
\<close>

lemma camel_match_to_camel: "camel_match (to_camel s) \<longleftrightarrow> has_uu_digit s"
proof (induction s rule: to_camel.induct)
  case (1 c d cs)
  show ?case
  proof (cases "c = CHR ''_'' \<and> (is_lower d \<or> is_digit d)")
    case True
    then have dn: "d \<noteq> CHR ''_''" by auto
    have "camel_match (upper_char d # to_camel cs) = camel_match (to_camel cs)"
      using upper_char_not_underscore [of d] True by (cases "to_camel cs") auto
    moreover have "has_uu_digit (c # d # cs) = has_uu_digit cs"
      using dn by (cases cs; cases "tl cs") auto
    ultimately show ?thesis using 1 True by simp
  next
    case False
    show ?thesis
    proof (cases cs)
      case Nil
      with False show ?thesis by auto
    next
      case (Cons e es)
      show ?thesis
      proof (cases "d = CHR ''_'' \<and> (is_lower e \<or> is_digit e)")
        case True
        with 1 False Cons upper_char_alnum_iff [of e] show ?thesis by auto
      next
        case no_match: False
        with 1 False Cons show ?thesis by auto
      qed
    qed
  qed
qed simp_all

text \<open>
  Claim C10, as stated, fails for \<open>to_camel\<close>: on two underscores and a digit the first
  pass leaves an underscore before the digit, and the second pass removes it.
\<close>

theorem to_camel_not_idempotent:
  "to_camel ''__1'' = ''_1'' \<and> to_camel (to_camel ''__1'') = ''1''
   \<and> to_camel (to_camel ''__1'') \<noteq> to_camel ''__1''"
  by code_simp

text \<open>
  Claim C10, amended. \<open>to_snake\<close> is idempotent on every string. \<open>to_camel\<close> is
  idempotent on a string exactly when the string holds no two underscores followed by a
  digit. \<open>to_camel\<close> returns unchanged a string with no underscore before a lower-case
  letter or digit (an already-camel string), and \<open>to_snake\<close> returns unchanged a string
  with no upper-case letter (an already-snake string).
\<close>

theorem case_idempotence:
  "to_snake (to_snake s) = to_snake s
   \<and> (to_camel (to_camel r) = to_camel r \<longleftrightarrow> \<not> has_uu_digit r)
   \<and> (\<not> camel_match t \<longrightarrow> to_camel t = t)
   \<and> ((\<forall>c \<in> set u. \<not> is_upper c) \<longrightarrow> to_snake u = u)"
  using to_snake_idem [of s] to_snake_no_upper [of u]
  by (simp add: to_camel_fixed_iff camel_match_to_camel)

theorem case_idempotence_witness:
  "\<not> has_uu_digit ''error_code_2''
   \<and> to_camel (to_camel ''error_code_2'') = to_camel ''error_code_2''
   \<and> to_snake (to_snake ''errorCode2'') = to_snake ''errorCode2''
   \<and> \<not> camel_match ''phoneNumberId''
   \<and> to_camel ''phoneNumberId'' = ''phoneNumberId''
   \<and> \<not> (\<exists>c \<in> set ''phone_number_id''. is_upper c)
   \<and> to_snake ''phone_number_id'' = ''phone_number_id''"
proof -
  have a: "\<not> has_uu_digit ''error_code_2''" by code_simp
  have b: "\<not> camel_match ''phoneNumberId''" by code_simp
  have c: "\<forall>c \<in> set ''phone_number_id''. \<not> is_upper c" by code_simp
  show ?thesis
    using a b c case_idempotence [of "''errorCode2''" "''error_code_2''" "''phoneNumberId''"
        "''phone_number_id''"]
    by blast
qed












section \<open>Properties of the retry advisor\<close>

lemma category_retry_total: "\<exists>a. map_of category_retry cat = Some a"
  by (cases cat) (simp_all add: category_retry_def)

lemma get_retry_hint_no_header:
  "map_of category_retry cat = Some a \<Longrightarrow>
   get_retry_hint cat None =
     Inr \<lparr>action = a, retry_after_ms = (if a = RetryAfter then Some 60000 else None)\<rparr>"
  by (simp add: get_retry_hint_def)

lemma get_retry_hint_parsed:
  "map_of category_retry cat = Some a \<Longrightarrow> header_ms h = Inr ms \<Longrightarrow>
   get_retry_hint cat (Some h) = Inr \<lparr>action = a, retry_after_ms = Some ms\<rparr>"
  by (simp add: get_retry_hint_def)

lemma get_retry_hint_unparsed:
  "map_of category_retry cat = Some a \<Longrightarrow> header_ms h = Inl ValueError \<Longrightarrow>
   get_retry_hint cat (Some h) =
     Inr \<lparr>action = a, retry_after_ms = (if a = RetryAfter then Some 60000 else None)\<rparr>"
  by (simp add: get_retry_hint_def)

lemma get_retry_hint_overflow:
  "header_ms h = Inl OverflowError \<Longrightarrow> get_retry_hint cat (Some h) = Inl OverflowError"
  by (simp add: get_retry_hint_def)

lemma header_ms_10: "header_ms ''10'' = Inr 10000" by code_simp
lemma header_ms_30: "header_ms ''30'' = Inr 30000" by code_simp
lemma header_ms_1_5: "header_ms ''1.5'' = Inr 1500" by code_simp
lemma header_ms_text: "header_ms ''not-a-number'' = Inl ValueError" by code_simp
lemma header_ms_inf: "header_ms ''inf'' = Inl OverflowError" by code_simp

lemma throttling_action: "map_of category_retry Throttling = Some RetryAfter"
  by (simp add: category_retry_def)

lemma authorization_action: "map_of category_retry Authorization = Some RefreshToken"
  by (simp add: category_retry_def)

text \<open>The examples of the specification for the throttling category.\<close>

lemma get_retry_hint_examples:
  "get_retry_hint Throttling None = Inr \<lparr>action = RetryAfter, retry_after_ms = Some 60000\<rparr>"
  "get_retry_hint Throttling (Some ''30'') = Inr \<lparr>action = RetryAfter, retry_after_ms = Some 30000\<rparr>"
  "get_retry_hint Throttling (Some ''1.5'') = Inr \<lparr>action = RetryAfter, retry_after_ms = Some 1500\<rparr>"
  "get_retry_hint Throttling (Some ''not-a-number'') =
     Inr \<lparr>action = RetryAfter, retry_after_ms = Some 60000\<rparr>"
  using get_retry_hint_no_header [OF throttling_action]
    get_retry_hint_parsed [OF throttling_action header_ms_30]
    get_retry_hint_parsed [OF throttling_action header_ms_1_5]
    get_retry_hint_unparsed [OF throttling_action header_ms_text]
  by simp_all

text \<open>
  Claim C2 at the header \<^verbatim>\<open>inf\<close>. \<^verbatim>\<open>float\<close> accepts the text, \<^verbatim>\<open>int\<close> of an infinity
  raises \<^verbatim>\<open>OverflowError\<close>, and \<^verbatim>\<open>suppress(ValueError, TypeError)\<close> does not silence it:
  \<^verbatim>\<open>get_retry_hint\<close> raises instead of returning the hint with the default of 60000 ms.
\<close>

theorem get_retry_hint_infinite_header:
  "get_retry_hint Throttling (Some ''inf'') = Inl OverflowError"
  using header_ms_inf by (rule get_retry_hint_overflow)

text \<open>
  Claim C7, as stated, fails: the action of the authorization category is not
  \<^verbatim>\<open>retry_after\<close>, and with the header \<^verbatim>\<open>10\<close> the hint carries 10000 ms.
\<close>

theorem retry_after_ms_on_other_action:
  "map_of category_retry Authorization = Some RefreshToken
   \<and> get_retry_hint Authorization (Some ''10'') =
       Inr \<lparr>action = RefreshToken, retry_after_ms = Some 10000\<rparr>"
  using authorization_action get_retry_hint_parsed [OF authorization_action header_ms_10]
  by simp

text \<open>
  Claim C7, amended. For a category whose action is not \<^verbatim>\<open>retry_after\<close>, the hint has
  no \<^verbatim>\<open>retry_after_ms\<close> when no header is given or when the header does not convert
  (\<^verbatim>\<open>ValueError\<close>), and it has the converted value when the header converts; no default
  is made up.
\<close>

theorem retry_after_ms_amended:
  "map_of category_retry cat = Some a \<and> a \<noteq> RetryAfter \<longrightarrow>
     get_retry_hint cat None = Inr \<lparr>action = a, retry_after_ms = None\<rparr>
     \<and> (header_ms h1 = Inl ValueError \<longrightarrow>
          get_retry_hint cat (Some h1) = Inr \<lparr>action = a, retry_after_ms = None\<rparr>)
     \<and> (header_ms h2 = Inr ms \<longrightarrow>
          get_retry_hint cat (Some h2) = Inr \<lparr>action = a, retry_after_ms = Some ms\<rparr>)"
  by (simp add: get_retry_hint_no_header get_retry_hint_parsed get_retry_hint_unparsed)

theorem retry_after_ms_amended_witness:
  "map_of category_retry Authorization = Some RefreshToken
   \<and> RefreshToken \<noteq> RetryAfter
   \<and> get_retry_hint Authorization None = Inr \<lparr>action = RefreshToken, retry_after_ms = None\<rparr>
   \<and> header_ms ''not-a-number'' = Inl ValueError
   \<and> get_retry_hint Authorization (Some ''not-a-number'') =
       Inr \<lparr>action = RefreshToken, retry_after_ms = None\<rparr>
   \<and> header_ms ''10'' = Inr 10000
   \<and> get_retry_hint Authorization (Some ''10'') =
       Inr \<lparr>action = RefreshToken, retry_after_ms = Some 10000\<rparr>"
  using retry_after_ms_amended [of Authorization RefreshToken "''not-a-number''" "''10''" 10000]
    authorization_action header_ms_text header_ms_10
  by simp


text \<open>\<^verbatim>\<open>get_retry_hint\<close> raises on exactly the headers whose conversion overflows.\<close>

lemma py_float_error: "py_float h = Inl e \<Longrightarrow> e = ValueError"
  by (auto simp: py_float_def Let_def split: option.splits if_splits prod.splits)

lemma py_int_error: "py_int x = Inl e \<Longrightarrow> e = ValueError \<or> e = OverflowError"
  by (cases x) auto

lemma header_ms_error: "header_ms h = Inl e \<Longrightarrow> e = ValueError \<or> e = OverflowError"
  using py_float_error py_int_error by (auto simp: header_ms_def split: sum.splits)

lemma get_retry_hint_raises:
  "get_retry_hint cat hdr = Inl e \<longleftrightarrow>
     e = OverflowError \<and> (\<exists>h. hdr = Some h \<and> header_ms h = Inl OverflowError)"
  using header_ms_error
  by (auto simp: get_retry_hint_def split: option.splits sum.splits if_splits)

section \<open>Properties of the API error\<close>

lemma graph_api_error_init_details:
  "graph_api_error_init message st code etype details subcode trace edata hdr raw = Inr e \<Longrightarrow>
   gae_details e = details"
  by (auto simp: graph_api_error_init_def Let_def split: sum.splits)

lemma from_response_details_eq:
  assumes "from_response st body hdr = Inr e"
    and "py_get body ''error'' body = Inr (PDict err)"
  shows "gae_details e =
    py_or (dict_get err ''error_user_msg'' PNone) (dict_get err ''details'' PNone)"
  using assms by (auto simp: from_response_def dest: graph_api_error_init_details)

text \<open>
  Claim C6, as stated, fails: an \<^verbatim>\<open>error_user_msg\<close> that is the empty string is not
  \<^verbatim>\<open>None\<close>, yet \<^verbatim>\<open>details\<close> is taken from the \<^verbatim>\<open>details\<close> key.
\<close>

theorem from_response_empty_user_msg:
  "map_sum id gae_details
     (from_response 400
        (PDict [(PStr ''error'',
           PDict [(PStr ''message'', PStr ''Error''), (PStr ''error_user_msg'', PStr []),
                  (PStr ''details'', PStr ''Technical details'')])])
        None)
   = Inr (PStr ''Technical details'')"
  by code_simp

text \<open>
  Claim C6, amended. When \<^verbatim>\<open>from_response\<close> returns, \<^verbatim>\<open>details\<close> is the
  \<^verbatim>\<open>error_user_msg\<close> of the error fields when that value is true (not \<^verbatim>\<open>None\<close>, not
  empty), and otherwise the value of their \<^verbatim>\<open>details\<close> key (\<^verbatim>\<open>None\<close> when absent). The
  error fields are the value under \<^verbatim>\<open>error\<close>, or the body itself without that key.
\<close>

theorem from_response_details:
  "from_response st body hdr = Inr e \<and> py_get body ''error'' body = Inr (PDict err) \<longrightarrow>
     (truthy (dict_get err ''error_user_msg'' PNone) \<longrightarrow>
        gae_details e = dict_get err ''error_user_msg'' PNone)
     \<and> (\<not> truthy (dict_get err ''error_user_msg'' PNone) \<longrightarrow>
        gae_details e = dict_get err ''details'' PNone)"
  using from_response_details_eq [of st body hdr e err] by (simp add: py_or_def)


theorem from_response_details_witness:
  "from_response 401
     (PDict [(PStr ''error'',
        PDict [(PStr ''message'', PStr ''Invalid token''), (PStr ''code'', PInt 190),
               (PStr ''error_user_msg'', PStr ''Your token expired''),
               (PStr ''details'', PStr ''Technical details'')])])
     None
   = Inr \<lparr>gae_message = PStr ''Invalid token'', gae_http_status = 401, gae_code = PInt 190,
          gae_type = PStr [], gae_details = PStr ''Your token expired'',
          gae_error_subcode = PNone, gae_fbtrace_id = PNone, gae_error_data = PNone,
          gae_raw = PDict [(PStr ''error'',
            PDict [(PStr ''message'', PStr ''Invalid token''), (PStr ''code'', PInt 190),
                   (PStr ''error_user_msg'', PStr ''Your token expired''),
                   (PStr ''details'', PStr ''Technical details'')])],
          gae_category = Authorization,
          gae_retry = \<lparr>action = RefreshToken, retry_after_ms = None\<rparr>\<rparr>
   \<and> truthy (PStr ''Your token expired'')
   \<and> from_response 400
     (PDict [(PStr ''message'', PStr ''Error''), (PStr ''details'', PStr ''Technical details'')])
     (Some ''30'')
   = Inr \<lparr>gae_message = PStr ''Error'', gae_http_status = 400, gae_code = PNone,
          gae_type = PStr [], gae_details = PStr ''Technical details'',
          gae_error_subcode = PNone, gae_fbtrace_id = PNone, gae_error_data = PNone,
          gae_raw = PDict [(PStr ''message'', PStr ''Error''),
                           (PStr ''details'', PStr ''Technical details'')],
          gae_category = Unknown,
          gae_retry = \<lparr>action = Retry, retry_after_ms = Some 30000\<rparr>\<rparr>
   \<and> \<not> truthy PNone"
proof -
  let ?err1 = "[(PStr ''message'', PStr ''Invalid token''), (PStr ''code'', PInt 190),
               (PStr ''error_user_msg'', PStr ''Your token expired''),
               (PStr ''details'', PStr ''Technical details'')]"
  let ?body1 = "PDict [(PStr ''error'', PDict ?err1)]"
  let ?err2 = "[(PStr ''message'', PStr ''Error''), (PStr ''details'', PStr ''Technical details'')]"
  let ?body2 = "PDict ?err2"
  let ?e1 = "\<lparr>gae_message = PStr ''Invalid token'', gae_http_status = 401,
          gae_code = PInt 190, gae_type = PStr [], gae_details = PStr ''Your token expired'',
          gae_error_subcode = PNone, gae_fbtrace_id = PNone, gae_error_data = PNone,
          gae_raw = ?body1, gae_category = Authorization,
          gae_retry = \<lparr>action = RefreshToken, retry_after_ms = None\<rparr>\<rparr>"
  let ?e2 = "\<lparr>gae_message = PStr ''Error'', gae_http_status = 400, gae_code = PNone,
          gae_type = PStr [], gae_details = PStr ''Technical details'',
          gae_error_subcode = PNone, gae_fbtrace_id = PNone, gae_error_data = PNone,
          gae_raw = ?body2, gae_category = Unknown,
          gae_retry = \<lparr>action = Retry, retry_after_ms = Some 30000\<rparr>\<rparr>"
  have e1: "from_response 401 ?body1 None = Inr ?e1"
    by code_simp
  have e2: "from_response 400 ?body2 (Some ''30'') = Inr ?e2"
    by code_simp
  have g1: "py_get ?body1 ''error'' ?body1 = Inr (PDict ?err1)"
    by (simp add: dict_get_def)
  have g2: "py_get ?body2 ''error'' ?body2 = Inr (PDict ?err2)"
    by (simp add: dict_get_def)
  have u1: "dict_get ?err1 ''error_user_msg'' PNone = PStr ''Your token expired''"
    by (simp add: dict_get_def)
  have u2: "dict_get ?err2 ''error_user_msg'' PNone = PNone"
    by (simp add: dict_get_def)
  have d2: "dict_get ?err2 ''details'' PNone = PStr ''Technical details''"
    by (simp add: dict_get_def)
  have "gae_details ?e1 = PStr ''Your token expired''"
    using from_response_details [of 401 ?body1 None ?e1 ?err1] e1 g1 u1 by simp
  moreover have "gae_details ?e2 = PStr ''Technical details''"
    using from_response_details [of 400 ?body2 "Some ''30''" ?e2 ?err2] e2 g2 u2 d2 by simp
  ultimately show ?thesis
    using e1 e2 by simp
qed

section \<open>Properties of the transport\<close>

lemma merged_headers_authorization:
  "merged_headers c hdrs ''Authorization'' =
     (case hdrs of
        None \<Rightarrow> Some (''Bearer '' @ access_token c)
      | Some h \<Rightarrow> (case h ''Authorization'' of
                    None \<Rightarrow> Some (''Bearer '' @ access_token c)
                  | Some v \<Rightarrow> Some v))"
  by (simp add: merged_headers_def auth_headers_def map_add_def split: option.splits)

lemma merged_headers_other:
  "k \<noteq> ''Authorization'' \<Longrightarrow>
   merged_headers c hdrs k = (case hdrs of None \<Rightarrow> None | Some h \<Rightarrow> h k)"
  by (simp add: merged_headers_def auth_headers_def map_add_def split: option.splits)

text \<open>
  Claim C5, as stated, fails: a caller's \<^verbatim>\<open>Authorization\<close> entry replaces the bearer
  token in the headers of the request that is sent.
\<close>

theorem caller_authorization_overrides:
  "req_headers
     (request_sent \<lparr>access_token = ''TOKEN'', base_url = ''https://graph.facebook.com'',
                     version = ''v23.0''\<rparr>
        ''GET'' ''me'' None None None None (Some [''Authorization'' \<mapsto> ''Basic abc'']))
     ''Authorization''
   = Some ''Basic abc''
   \<and> Some ''Basic abc'' \<noteq> Some (''Bearer '' @ ''TOKEN'')"
  by (simp add: request_sent_def merged_headers_def auth_headers_def)

text \<open>
  Claim C5, amended. The headers sent are the merged headers. They always have an
  \<^verbatim>\<open>Authorization\<close> entry; it is the bearer token of the client when the caller gives
  no headers or headers without that key. Every entry of the caller's headers is in the
  merged headers with the caller's value, the \<^verbatim>\<open>Authorization\<close> key included, and
  every other key is as the caller gave it.
\<close>

theorem request_headers_merge:
  "req_headers (request_sent c method path json params data files hdrs) = merged_headers c hdrs
   \<and> merged_headers c hdrs ''Authorization'' \<noteq> None
   \<and> merged_headers c None ''Authorization'' = Some (''Bearer '' @ access_token c)
   \<and> (h ''Authorization'' = None \<longrightarrow>
        merged_headers c (Some h) ''Authorization'' = Some (''Bearer '' @ access_token c))
   \<and> (h' k = Some v \<longrightarrow> merged_headers c (Some h') k = Some v)
   \<and> (k' \<noteq> ''Authorization'' \<longrightarrow> merged_headers c (Some h'') k' = h'' k')"
proof -
  have a: "req_headers (request_sent c method path json params data files hdrs)
      = merged_headers c hdrs"
    by (simp add: request_sent_def)
  have b: "merged_headers c hdrs ''Authorization'' \<noteq> None"
    by (simp add: merged_headers_authorization split: option.splits)
  have d: "merged_headers c None ''Authorization'' = Some (''Bearer '' @ access_token c)"
    by (simp add: merged_headers_authorization)
  have e: "h ''Authorization'' = None \<longrightarrow>
      merged_headers c (Some h) ''Authorization'' = Some (''Bearer '' @ access_token c)"
    by (simp add: merged_headers_authorization)
  have f: "h' k = Some v \<longrightarrow> merged_headers c (Some h') k = Some v"
    by (simp add: merged_headers_def map_add_def)
  have g: "k' \<noteq> ''Authorization'' \<longrightarrow> merged_headers c (Some h'') k' = h'' k'"
    by (simp add: merged_headers_other)
  from a b d e f g show ?thesis by (intro conjI)
qed

theorem request_headers_merge_witness:
  "[''Accept'' \<mapsto> ''text/plain''] ''Authorization'' = None
   \<and> merged_headers \<lparr>access_token = ''TOKEN'', base_url = ''https://graph.facebook.com'',
                       version = ''v23.0''\<rparr>
        (Some [''Accept'' \<mapsto> ''text/plain'']) ''Authorization'' = Some ''Bearer TOKEN''
   \<and> [''Authorization'' \<mapsto> ''Basic abc''] ''Authorization'' = Some ''Basic abc''
   \<and> merged_headers \<lparr>access_token = ''TOKEN'', base_url = ''https://graph.facebook.com'',
                       version = ''v23.0''\<rparr>
        (Some [''Authorization'' \<mapsto> ''Basic abc'']) ''Authorization'' = Some ''Basic abc''
   \<and> ''Accept'' \<noteq> ''Authorization''
   \<and> merged_headers \<lparr>access_token = ''TOKEN'', base_url = ''https://graph.facebook.com'',
                       version = ''v23.0''\<rparr>
        (Some [''Accept'' \<mapsto> ''text/plain'']) ''Accept'' = Some ''text/plain''"
  using request_headers_merge [of "\<lparr>access_token = ''TOKEN'',
        base_url = ''https://graph.facebook.com'', version = ''v23.0''\<rparr>"
      "''GET''" "''me''" None None None None None "[''Accept'' \<mapsto> ''text/plain'']"
      "[''Authorization'' \<mapsto> ''Basic abc'']" "''Authorization''" "''Basic abc''"
      "''Accept''" "[''Accept'' \<mapsto> ''text/plain'']"]
  by simp

section \<open>Properties of the event mapper and dispatcher\<close>

lemma emit_statuses_map:
  "emit_statuses pid statuses emitted = emitted @ map (status_event pid) statuses"
  by (induction statuses arbitrary: emitted) simp_all

lemma status_event_cases:
  "msu_status s = ''sent'' \<Longrightarrow> status_event pid s = MessageSent (status_base_of pid s)"
  "msu_status s = ''delivered'' \<Longrightarrow> status_event pid s = MessageDelivered (status_base_of pid s)"
  "msu_status s = ''read'' \<Longrightarrow> status_event pid s = MessageRead (status_base_of pid s)"
  "msu_status s = ''failed'' \<Longrightarrow>
     status_event pid s = MessageFailed (status_base_of pid s) (or_empty (msu_errors s))"
  "msu_status s \<notin> {''sent'', ''delivered'', ''read'', ''failed''} \<Longrightarrow>
     status_event pid s = MessageSent (status_base_of pid s)"
  by (simp_all add: status_event_def)

text \<open>
  When the messages of a webhook are mapped without an exception,
  \<^verbatim>\<open>dispatch_webhook\<close> emits, after the message events, one event per status update in
  order. The event is chosen by the status string: \<^verbatim>\<open>sent\<close> gives \<open>MessageSent\<close>,
  \<^verbatim>\<open>delivered\<close> gives \<open>MessageDelivered\<close>, \<^verbatim>\<open>read\<close> gives \<open>MessageRead\<close>, \<^verbatim>\<open>failed\<close> gives
  \<open>MessageFailed\<close> with the errors of the update, the empty list when it has none, and
  every other string gives \<open>MessageSent\<close>.
\<close>

lemma dispatch_status_events:
  "(emit_messages loads py_str (nw_phone_number_id w) (nw_messages w) emitted = Inr emitted' \<longrightarrow>
      dispatch_webhook loads py_str w emitted =
        Inr (emitted' @ map (status_event (nw_phone_number_id w)) (nw_statuses w)))
   \<and> (msu_status s1 = ''sent'' \<longrightarrow> status_event pid s1 = MessageSent (status_base_of pid s1))
   \<and> (msu_status s2 = ''delivered'' \<longrightarrow>
        status_event pid s2 = MessageDelivered (status_base_of pid s2))
   \<and> (msu_status s3 = ''read'' \<longrightarrow> status_event pid s3 = MessageRead (status_base_of pid s3))
   \<and> (msu_status s4 = ''failed'' \<longrightarrow>
        status_event pid s4 = MessageFailed (status_base_of pid s4) (or_empty (msu_errors s4)))
   \<and> (msu_status s4 = ''failed'' \<and> msu_errors s4 = None \<longrightarrow>
        status_event pid s4 = MessageFailed (status_base_of pid s4) [])
   \<and> (msu_status s5 \<notin> {''sent'', ''delivered'', ''read'', ''failed''} \<longrightarrow>
        status_event pid s5 = MessageSent (status_base_of pid s5))"
  by (simp add: dispatch_webhook_def emit_statuses_map status_event_cases or_empty_def)


text \<open>A webhook with five status updates and no message.\<close>

lemma dispatch_status_events_example:
  "emit_messages (\<lambda>s. Inl JSONDecodeError) (\<lambda>v. []) (Some ''123'') [] [] = Inr []
   \<and> dispatch_webhook (\<lambda>s. Inl JSONDecodeError) (\<lambda>v. [])
       \<lparr>nw_object = None, nw_phone_number_id = Some ''123'', nw_display_phone_number = None,
        nw_contacts = [], nw_messages = [],
        nw_statuses =
          map (\<lambda>x. \<lparr>msu_id = ''m1'', msu_status = x, msu_timestamp = ''1'',
                      msu_recipient_id = Some ''456'', msu_conversation = None,
                      msu_pricing = None, msu_errors = None, msu_extra = []\<rparr>)
            [''pending'', ''failed'', ''delivered'', ''read'', ''sent''],
        nw_raw = []\<rparr> []
     = Inr (map (\<lambda>f. f \<lparr>sb_phone_number_id = Some ''123'', sb_message_id = ''m1'',
                          sb_timestamp = ''1'', sb_recipient_id = ''456'',
                          sb_conversation = None, sb_pricing = None\<rparr>)
            [MessageSent, (\<lambda>b. MessageFailed b []), MessageDelivered, MessageRead,
             MessageSent])
   \<and> ''pending'' \<notin> {''sent'', ''delivered'', ''read'', ''failed''}"
proof -
  let ?st = "\<lambda>x. \<lparr>msu_id = ''m1'', msu_status = x, msu_timestamp = ''1'',
      msu_recipient_id = Some ''456'', msu_conversation = None,
      msu_pricing = None, msu_errors = None, msu_extra = []\<rparr>"
  let ?w = "\<lparr>nw_object = None, nw_phone_number_id = Some ''123'',
      nw_display_phone_number = None, nw_contacts = [], nw_messages = [],
      nw_statuses = map ?st [''pending'', ''failed'', ''delivered'', ''read'', ''sent''],
      nw_raw = []\<rparr>"
  have base: "status_base_of (Some ''123'') (?st x) =
      \<lparr>sb_phone_number_id = Some ''123'', sb_message_id = ''m1'', sb_timestamp = ''1'',
       sb_recipient_id = ''456'', sb_conversation = None, sb_pricing = None\<rparr>" for x
    by (simp add: status_base_of_def)
  show ?thesis
    using dispatch_status_events [of "\<lambda>s. Inl JSONDecodeError" "\<lambda>v. []" ?w "[]" "[]"
        "?st ''sent''" "Some ''123''" "?st ''delivered''" "?st ''read''" "?st ''failed''"
        "?st ''pending''"]
    by (simp add: base or_empty_def)
qed


text \<open>
  The mapper returns an event for every message whose type is not \<^verbatim>\<open>interactive\<close>; a
  type that is not mapped gives the unknown event with the dump of the message; a
  message without the payload of its type gives the event with the defaults.
\<close>

lemma map_message_not_interactive:
  "wm_type msg \<noteq> ''interactive'' \<Longrightarrow> \<exists>ev. map_message loads py_str msg pid = Inr ev"
  by (simp add: map_message_def Let_def)

lemma map_message_unknown_type:
  "wm_type msg \<notin> {''text'', ''image'', ''video'', ''audio'', ''document'', ''sticker'',
      ''location'', ''contacts'', ''reaction'', ''interactive'', ''order''} \<Longrightarrow>
   map_message loads py_str msg pid =
     Inr (UnknownMessageReceived (base_kwargs msg pid) (wm_type msg) (message_dump msg))"
  by (simp add: map_message_def Let_def)

lemma map_message_missing_payload:
  "wm_type msg = ''text'' \<Longrightarrow> wm_text msg = None \<Longrightarrow>
     map_message loads py_str msg pid = Inr (TextReceived (base_kwargs msg pid) (PStr []) False)"
  "wm_type msg = ''image'' \<Longrightarrow> wm_image msg = None \<Longrightarrow>
     map_message loads py_str msg pid =
       Inr (ImageReceived (base_kwargs msg pid) (PStr []) (PStr []) (PStr []) PNone)"
  "wm_type msg = ''audio'' \<Longrightarrow> wm_audio msg = None \<Longrightarrow>
     map_message loads py_str msg pid =
       Inr (AudioReceived (base_kwargs msg pid) (PStr []) (PStr []) (PStr []) (PBool False))"
  "wm_type msg = ''location'' \<Longrightarrow> wm_location msg = None \<Longrightarrow>
     map_message loads py_str msg pid =
       Inr (LocationReceived (base_kwargs msg pid) (PFloat (Finite 0 0)) (PFloat (Finite 0 0))
              PNone PNone)"
  "wm_type msg = ''contacts'' \<Longrightarrow> wm_contacts msg = None \<Longrightarrow>
     map_message loads py_str msg pid = Inr (ContactsReceived (base_kwargs msg pid) [])"
  "wm_type msg = ''order'' \<Longrightarrow> wm_order msg = None \<Longrightarrow>
     map_message loads py_str msg pid =
       Inr (OrderReceived (base_kwargs msg pid) (PStr []) (PList []) PNone)"
  "wm_type msg = ''interactive'' \<Longrightarrow> wm_interactive msg = None \<Longrightarrow>
     map_message loads py_str msg pid =
       Inr (UnknownMessageReceived (base_kwargs msg pid) ''interactive:'' [])"
  by (simp_all add: map_message_def map_interactive_def interactive_tag_def Let_def
      or_empty_def dict_get_def)

text \<open>
  Claim C3 at an interactive message whose \<^verbatim>\<open>button_reply\<close> is \<^verbatim>\<open>null\<close>. The payload is a
  valid \<^verbatim>\<open>dict[str, Any]\<close>; \<^verbatim>\<open>interactive.get("button_reply", {})\<close> returns \<^verbatim>\<open>None\<close>, and
  \<^verbatim>\<open>reply.get\<close> raises \<^verbatim>\<open>AttributeError\<close>: the mapper does not return an event.
\<close>

theorem map_message_null_reply:
  "map_message loads py_str
     \<lparr>wm_id = ''m1'', wm_type = ''interactive'', wm_timestamp = ''1'', wm_from = Some ''123'',
      wm_to = None, wm_context = None, wm_text = None, wm_image = None, wm_video = None,
      wm_audio = None, wm_document = None, wm_location = None,
      wm_interactive = Some [(PStr ''type'', PStr ''button_reply''),
                             (PStr ''button_reply'', PNone)],
      wm_template = None, wm_order = None, wm_sticker = None, wm_contacts = None,
      wm_reaction = None, wm_button = None, wm_referral = None, wm_extra = []\<rparr>
     None
   = Inl AttributeError"
  by (simp add: map_message_def map_interactive_def Let_def or_empty_def dict_get_def)

text \<open>
  The same message as it arrives in a webhook payload: it passes normalization, and the
  dispatcher raises before it emits anything.
\<close>

lemma null_reply_end_to_end:
  "(case normalize_webhook
      (PDict [(PStr ''object'', PStr ''whatsapp_business_account''),
        (PStr ''entry'', PList [PDict [(PStr ''changes'', PList [PDict
          [(PStr ''field'', PStr ''messages''),
           (PStr ''value'', PDict [(PStr ''messages'', PList [PDict
              [(PStr ''from'', PStr ''123''), (PStr ''id'', PStr ''m1''),
               (PStr ''timestamp'', PStr ''1''), (PStr ''type'', PStr ''interactive''),
               (PStr ''interactive'', PDict [(PStr ''type'', PStr ''button_reply''),
                                             (PStr ''button_reply'', PNone)])]])])]])]])]) of
      Inl e \<Rightarrow> None
    | Inr w \<Rightarrow> Some (dispatch_webhook (\<lambda>s. Inl JSONDecodeError) (\<lambda>v. []) w []))
   = Some (Inl (AttributeError, []))"
  by code_simp

text \<open>
  Claim C9 at a webhook with the interactive message above and one status update
  \<^verbatim>\<open>sent\<close>. The payload passes normalization. \<^verbatim>\<open>dispatch_webhook\<close> maps the messages
  first; \<^verbatim>\<open>_map_message\<close> raises \<^verbatim>\<open>AttributeError\<close> on the message, the status loop is
  never reached, and no event is emitted for the status update.
\<close>

theorem dispatch_raises_before_statuses:
  "normalize_webhook
     (PDict [(PStr ''object'', PStr ''whatsapp_business_account''),
       (PStr ''entry'', PList [PDict [(PStr ''changes'', PList [PDict
         [(PStr ''field'', PStr ''messages''),
          (PStr ''value'', PDict
            [(PStr ''messages'', PList [PDict
               [(PStr ''from'', PStr ''123''), (PStr ''id'', PStr ''m1''),
                (PStr ''timestamp'', PStr ''1''), (PStr ''type'', PStr ''interactive''),
                (PStr ''interactive'', PDict [(PStr ''type'', PStr ''button_reply''),
                                              (PStr ''button_reply'', PNone)])]]),
             (PStr ''statuses'', PList [PDict
               [(PStr ''id'', PStr ''m0''), (PStr ''status'', PStr ''sent''),
                (PStr ''timestamp'', PStr ''1''),
                (PStr ''recipient_id'', PStr ''456'')]])])]])]])])
   = Inr \<lparr>nw_object = Some ''whatsapp_business_account'', nw_phone_number_id = None,
          nw_display_phone_number = None, nw_contacts = [],
          nw_messages =
            [\<lparr>wm_id = ''m1'', wm_type = ''interactive'', wm_timestamp = ''1'',
              wm_from = Some ''123'', wm_to = None, wm_context = None, wm_text = None,
              wm_image = None, wm_video = None, wm_audio = None, wm_document = None,
              wm_location = None,
              wm_interactive = Some [(PStr ''type'', PStr ''button_reply''),
                                     (PStr ''button_reply'', PNone)],
              wm_template = None, wm_order = None, wm_sticker = None, wm_contacts = None,
              wm_reaction = None, wm_button = None, wm_referral = None, wm_extra = []\<rparr>],
          nw_statuses =
            [\<lparr>msu_id = ''m0'', msu_status = ''sent'', msu_timestamp = ''1'',
              msu_recipient_id = Some ''456'', msu_conversation = None, msu_pricing = None,
              msu_errors = None, msu_extra = []\<rparr>],
          nw_raw = []\<rparr>
   \<and> dispatch_webhook loads py_str
       \<lparr>nw_object = Some ''whatsapp_business_account'', nw_phone_number_id = None,
        nw_display_phone_number = None, nw_contacts = [],
        nw_messages =
          [\<lparr>wm_id = ''m1'', wm_type = ''interactive'', wm_timestamp = ''1'',
            wm_from = Some ''123'', wm_to = None, wm_context = None, wm_text = None,
            wm_image = None, wm_video = None, wm_audio = None, wm_document = None,
            wm_location = None,
            wm_interactive = Some [(PStr ''type'', PStr ''button_reply''),
                                   (PStr ''button_reply'', PNone)],
            wm_template = None, wm_order = None, wm_sticker = None, wm_contacts = None,
            wm_reaction = None, wm_button = None, wm_referral = None, wm_extra = []\<rparr>],
        nw_statuses =
          [\<lparr>msu_id = ''m0'', msu_status = ''sent'', msu_timestamp = ''1'',
            msu_recipient_id = Some ''456'', msu_conversation = None, msu_pricing = None,
            msu_errors = None, msu_extra = []\<rparr>],
        nw_raw = []\<rparr>
       []
     = Inl (AttributeError, [])"
proof -
  show ?thesis
  proof (rule conjI)
    show "dispatch_webhook loads py_str
       \<lparr>nw_object = Some ''whatsapp_business_account'', nw_phone_number_id = None,
        nw_display_phone_number = None, nw_contacts = [],
        nw_messages =
          [\<lparr>wm_id = ''m1'', wm_type = ''interactive'', wm_timestamp = ''1'',
            wm_from = Some ''123'', wm_to = None, wm_context = None, wm_text = None,
            wm_image = None, wm_video = None, wm_audio = None, wm_document = None,
            wm_location = None,
            wm_interactive = Some [(PStr ''type'', PStr ''button_reply''),
                                   (PStr ''button_reply'', PNone)],
            wm_template = None, wm_order = None, wm_sticker = None, wm_contacts = None,
            wm_reaction = None, wm_button = None, wm_referral = None, wm_extra = []\<rparr>],
        nw_statuses =
          [\<lparr>msu_id = ''m0'', msu_status = ''sent'', msu_timestamp = ''1'',
            msu_recipient_id = Some ''456'', msu_conversation = None, msu_pricing = None,
            msu_errors = None, msu_extra = []\<rparr>],
        nw_raw = []\<rparr>
       []
     = Inl (AttributeError, [])"
      by (simp add: dispatch_webhook_def map_message_def map_interactive_def Let_def
          or_empty_def dict_get_def)
  qed code_simp
qed
section \<open>Properties of the webhook normalizer\<close>

lemma kept_metadata_truthy: "truthy (fst cur) \<Longrightarrow> kept_metadata cur ms = cur"
  by (cases ms) simp_all

lemma kept_metadata_append:
  "kept_metadata (kept_metadata cur xs) ys = kept_metadata cur (xs @ ys)"
proof (induction xs arbitrary: cur)
  case Nil
  then show ?case by simp
next
  case (Cons m xs)
  then show ?case by (simp add: kept_metadata_truthy)
qed

text \<open>A quantity that no iteration of a loop changes is the same after the loop.\<close>

lemma for_each_invariant:
  assumes "\<And>x s s'. body x s = Inr s' \<Longrightarrow> f s' = f s"
    and "for_each body xs st = Inr st'"
  shows "f st' = f st"
  using assms(2)
proof (induction xs arbitrary: st)
  case Nil
  then show ?case by simp
next
  case (Cons x xs)
  then obtain s1 where "body x st = Inr s1" "for_each body xs s1 = Inr st'"
    by (auto split: sum.splits)
  with Cons.IH [of s1] assms(1) [of x st s1] show ?case by simp
qed

lemma process_contact_pair: "process_contact c s = Inr s' \<Longrightarrow> ns_pair s' = ns_pair s"
  by (auto simp: process_contact_def and_then_def ns_pair_def split: sum.splits)

lemma process_message_pair: "process_message c s = Inr s' \<Longrightarrow> ns_pair s' = ns_pair s"
  by (auto simp: process_message_def and_then_def ns_pair_def split: sum.splits)

lemma process_status_pair: "process_status c s = Inr s' \<Longrightarrow> ns_pair s' = ns_pair s"
  by (auto simp: process_status_def and_then_def ns_pair_def split: sum.splits)

lemma and_then_Inr: "and_then m f = Inr y \<longleftrightarrow> (\<exists>x. m = Inr x \<and> f x = Inr y)"
  by (cases m) (simp_all add: and_then_def)

lemma py_get_Inr: "py_get v k d = Inr x \<longleftrightarrow> (\<exists>kvs. v = PDict kvs \<and> x = dict_get kvs k d)"
  by (cases v) auto

lemma take_metadata_pair:
  assumes "take_metadata metadata st = Inr st'"
  shows "ns_pair st' =
    (if truthy (ns_phone_number_id st) then ns_pair st
     else (case metadata of
             PDict m \<Rightarrow> (dict_get m ''phone_number_id'' PNone,
                          dict_get m ''display_phone_number'' PNone)
           | _ \<Rightarrow> ns_pair st))"
    and "\<not> truthy (ns_phone_number_id st) \<Longrightarrow> \<exists>m. metadata = PDict m"
  using assms
  by (auto simp: take_metadata_def and_then_Inr py_get_Inr ns_pair_def split: if_splits)

text \<open>
  One change: the metadata variables are replaced by the offer of the change exactly
  when the phone number id held so far is not true.
\<close>

lemma process_change_pair:
  assumes "process_change change st = Inr st'"
  shows "ns_pair st' =
    (case change_metadata change of
       None \<Rightarrow> ns_pair st
     | Some m \<Rightarrow> if truthy (fst (ns_pair st)) then ns_pair st else m)"
proof -
  from assms obtain c where c: "change = PDict c"
    by (auto simp: process_change_def and_then_Inr py_get_Inr)
  let ?field = "dict_get c ''field'' (PStr [])"
  let ?val = "dict_get c ''value'' (PDict [])"
  show ?thesis
  proof (cases "?field = PStr ''messages''")
    case False
    then have "change_metadata change = None"
      by (simp add: change_metadata_def c)
    moreover have "ns_pair st' = ns_pair st"
      using assms False c
      by (auto simp: process_change_def and_then_Inr ns_pair_def split: if_splits)
    ultimately show ?thesis by simp
  next
    case True
    with assms c obtain v st1 st2 st3 cs ms ss where v: "?val = PDict v"
      and st1: "take_metadata (dict_get v ''metadata'' (PDict [])) st = Inr st1"
      and st2: "for_each process_contact cs st1 = Inr st2"
      and st3: "for_each process_message ms st2 = Inr st3"
      and st': "for_each process_status ss st3 = Inr st'"
      by (auto simp: process_change_def and_then_Inr py_get_Inr)
    have "ns_pair st' = ns_pair st3"
      using for_each_invariant [of process_status ns_pair ss st3 st'] process_status_pair st'
      by blast
    also have "\<dots> = ns_pair st2"
      using for_each_invariant [of process_message ns_pair ms st2 st3] process_message_pair st3
      by blast
    also have "\<dots> = ns_pair st1"
      using for_each_invariant [of process_contact ns_pair cs st1 st2] process_contact_pair st2
      by blast
    finally have eq: "ns_pair st' = ns_pair st1" .
    show ?thesis
    proof (cases "truthy (ns_phone_number_id st)")
      case t: True
      then have "ns_pair st1 = ns_pair st"
        using take_metadata_pair(1) [OF st1] by simp
      with eq t show ?thesis
        by (simp add: ns_pair_def split: option.splits)
    next
      case f: False
      with take_metadata_pair(2) [OF st1] obtain m
        where m: "dict_get v ''metadata'' (PDict []) = PDict m" by blast
      then have "change_metadata change =
          Some (dict_get m ''phone_number_id'' PNone, dict_get m ''display_phone_number'' PNone)"
        using True v c by (simp add: change_metadata_def)
      moreover have "ns_pair st1 =
          (dict_get m ''phone_number_id'' PNone, dict_get m ''display_phone_number'' PNone)"
        using take_metadata_pair(1) [OF st1] f m by simp
      ultimately show ?thesis
        using eq f by (simp add: ns_pair_def)
    qed
  qed
qed

lemma kept_metadata_step:
  "kept_metadata (case om of None \<Rightarrow> cur | Some m \<Rightarrow> if truthy (fst cur) then cur else m) ms
   = kept_metadata cur (case om of None \<Rightarrow> ms | Some m \<Rightarrow> m # ms)"
  by (cases om) (simp_all add: kept_metadata_truthy)

lemma process_changes_pair:
  "for_each process_change cs st = Inr st' \<Longrightarrow>
   ns_pair st' = kept_metadata (ns_pair st) (List.map_filter change_metadata cs)"
proof (induction cs arbitrary: st)
  case Nil
  then show ?case by (simp add: List.map_filter_simps)
next
  case (Cons c cs)
  then obtain s1 where s1: "process_change c st = Inr s1" "for_each process_change cs s1 = Inr st'"
    by (auto split: sum.splits)
  have "ns_pair st' = kept_metadata (ns_pair s1) (List.map_filter change_metadata cs)"
    using Cons.IH [OF s1(2)] .
  also have "\<dots> = kept_metadata (ns_pair st)
      (case change_metadata c of None \<Rightarrow> List.map_filter change_metadata cs
       | Some m \<Rightarrow> m # List.map_filter change_metadata cs)"
    unfolding process_change_pair [OF s1(1)] by (rule kept_metadata_step)
  also have "\<dots> = kept_metadata (ns_pair st) (List.map_filter change_metadata (c # cs))"
    by (simp add: List.map_filter_simps split: option.splits)
  finally show ?case .
qed

lemma process_entry_pair:
  assumes "process_entry entry st = Inr st'"
  shows "ns_pair st' =
    kept_metadata (ns_pair st) (List.map_filter change_metadata (entry_changes entry))"
proof -
  from assms obtain changes cs where "py_get entry ''changes'' (PList []) = Inr changes"
    "py_iter changes = Inr cs" "for_each process_change cs st = Inr st'"
    by (auto simp: process_entry_def and_then_Inr)
  then show ?thesis
    using process_changes_pair [of cs st st'] by (simp add: entry_changes_def)
qed

lemma map_filter_append:
  "List.map_filter f (xs @ ys) = List.map_filter f xs @ List.map_filter f ys"
  by (simp add: List.map_filter_def)

lemma process_entries_pair:
  "for_each process_entry es st = Inr st' \<Longrightarrow>
   ns_pair st' =
     kept_metadata (ns_pair st) (List.map_filter change_metadata (concat (map entry_changes es)))"
proof (induction es arbitrary: st)
  case Nil
  then show ?case by (simp add: List.map_filter_simps)
next
  case (Cons e es)
  then obtain s1 where s1: "process_entry e st = Inr s1" "for_each process_entry es s1 = Inr st'"
    by (auto split: sum.splits)
  show ?case
    using Cons.IH [OF s1(2)] process_entry_pair [OF s1(1)]
    by (simp add: map_filter_append kept_metadata_append)
qed

lemma opt_str_value_py: "opt_str_value v = Some x \<Longrightarrow> opt_to_py x = v"
  by (cases v) (auto simp: opt_str_value_def opt_to_py_def split: if_splits)

lemma normalized_webhook_init_pair:
  assumes "normalized_webhook_init obj st = Inr w"
  shows "(opt_to_py (nw_phone_number_id w), opt_to_py (nw_display_phone_number w)) = ns_pair st"
  using assms
  by (auto simp: normalized_webhook_init_def ns_pair_def opt_str_value_py
      split: option.splits Option.bind_splits)

text \<open>
  The metadata of the result of \<^verbatim>\<open>normalize_webhook\<close> is what is kept of the offers of
  the payload, starting from \<^verbatim>\<open>None\<close>, \<^verbatim>\<open>None\<close>.
\<close>

lemma normalize_webhook_pair:
  assumes "normalize_webhook payload = Inr w"
  shows "(opt_to_py (nw_phone_number_id w), opt_to_py (nw_display_phone_number w)) =
    kept_metadata (PNone, PNone) (offered_metadata payload)"
proof (cases payload)
  case (PDict p)
  with assms obtain es st where es: "py_iter (dict_get p ''entry'' (PList [])) = Inr es"
    and st: "for_each process_entry es initial_state = Inr st"
    and w: "normalized_webhook_init (dict_get p ''object'' PNone) st = Inr w"
    by (auto simp: and_then_Inr Let_def)
  have "ns_pair initial_state = (PNone, PNone)"
    by (simp add: ns_pair_def initial_state_def)
  with process_entries_pair [OF st] normalized_webhook_init_pair [OF w] es PDict
  show ?thesis by (simp add: offered_metadata_def)
qed (use assms in \<open>auto simp: empty_webhook_def opt_to_py_def offered_metadata_def\<close>)


lemma kept_metadata_first_truthy:
  "\<forall>m \<in> set pre. \<not> truthy (fst m) \<Longrightarrow> \<not> truthy (fst cur) \<Longrightarrow> truthy (fst m) \<Longrightarrow>
   kept_metadata cur (pre @ m # post) = m"
  by (induction pre arbitrary: cur) (simp_all add: kept_metadata_truthy)

lemma kept_metadata_all_falsy:
  "\<forall>m \<in> set ms. \<not> truthy (fst m) \<Longrightarrow> \<not> truthy (fst cur) \<Longrightarrow>
   kept_metadata cur ms = last (cur # ms)"
  by (induction ms arbitrary: cur) simp_all

text \<open>
  Claim C4, as stated, fails: the first \<^verbatim>\<open>messages\<close> change has no
  \<^verbatim>\<open>phone_number_id\<close> and the display number \<^verbatim>\<open>+1\<close>; both values are overwritten by
  the metadata of the second \<^verbatim>\<open>messages\<close> change.
\<close>

theorem normalize_overwrites_empty_first:
  "offered_metadata
     (PDict [(PStr ''entry'', PList [PDict [(PStr ''changes'', PList
        [PDict [(PStr ''field'', PStr ''messages''),
                (PStr ''value'', PDict [(PStr ''metadata'',
                   PDict [(PStr ''display_phone_number'', PStr ''+1'')])])],
         PDict [(PStr ''field'', PStr ''messages''),
                (PStr ''value'', PDict [(PStr ''metadata'',
                   PDict [(PStr ''phone_number_id'', PStr ''222''),
                          (PStr ''display_phone_number'', PStr ''+2'')])])]])]])])
     = [(PNone, PStr ''+1''), (PStr ''222'', PStr ''+2'')]
   \<and> map_sum id (\<lambda>w. (nw_phone_number_id w, nw_display_phone_number w))
       (normalize_webhook
         (PDict [(PStr ''entry'', PList [PDict [(PStr ''changes'', PList
            [PDict [(PStr ''field'', PStr ''messages''),
                    (PStr ''value'', PDict [(PStr ''metadata'',
                       PDict [(PStr ''display_phone_number'', PStr ''+1'')])])],
             PDict [(PStr ''field'', PStr ''messages''),
                    (PStr ''value'', PDict [(PStr ''metadata'',
                       PDict [(PStr ''phone_number_id'', PStr ''222''),
                              (PStr ''display_phone_number'', PStr ''+2'')])])]])]])]))
     = Inr (Some ''222'', Some ''+2'')"
  by code_simp

text \<open>
  Claim C4, amended. When \<^verbatim>\<open>normalize_webhook\<close> returns, \<^verbatim>\<open>phone_number_id\<close> and
  \<^verbatim>\<open>display_phone_number\<close> are both those of the first \<^verbatim>\<open>messages\<close> change whose
  \<^verbatim>\<open>metadata.phone_number_id\<close> is true (not \<^verbatim>\<open>None\<close>, not empty), and no later change
  overwrites them. When no \<^verbatim>\<open>messages\<close> change has a true \<^verbatim>\<open>phone_number_id\<close>, they are
  those of the last \<^verbatim>\<open>messages\<close> change, and \<^verbatim>\<open>None\<close> when there is no such change.
\<close>

theorem normalize_metadata_first_truthy:
  "(normalize_webhook payload = Inr w \<and> offered_metadata payload = pre @ (p, d) # post
      \<and> (\<forall>m \<in> set pre. \<not> truthy (fst m)) \<and> truthy p \<longrightarrow>
        opt_to_py (nw_phone_number_id w) = p \<and> opt_to_py (nw_display_phone_number w) = d)
   \<and> (normalize_webhook payload' = Inr w' \<and> offered_metadata payload' = ms \<and> ms \<noteq> []
      \<and> (\<forall>m \<in> set ms. \<not> truthy (fst m)) \<longrightarrow>
        (opt_to_py (nw_phone_number_id w'), opt_to_py (nw_display_phone_number w')) = last ms)
   \<and> (normalize_webhook payload'' = Inr w'' \<and> offered_metadata payload'' = [] \<longrightarrow>
        nw_phone_number_id w'' = None \<and> nw_display_phone_number w'' = None)"
proof -
  have a: "opt_to_py (nw_phone_number_id w) = p \<and> opt_to_py (nw_display_phone_number w) = d"
    if "normalize_webhook payload = Inr w" "offered_metadata payload = pre @ (p, d) # post"
      "\<forall>m \<in> set pre. \<not> truthy (fst m)" "truthy p"
    using normalize_webhook_pair [OF that(1)] that(2-4)
      kept_metadata_first_truthy [of pre "(PNone, PNone)" "(p, d)" post]
    by simp
  have b: "(opt_to_py (nw_phone_number_id w'), opt_to_py (nw_display_phone_number w')) = last ms"
    if "normalize_webhook payload' = Inr w'" "offered_metadata payload' = ms" "ms \<noteq> []"
      "\<forall>m \<in> set ms. \<not> truthy (fst m)"
    using normalize_webhook_pair [OF that(1)] that(2-4)
      kept_metadata_all_falsy [of ms "(PNone, PNone)"]
    by simp
  have c: "nw_phone_number_id w'' = None \<and> nw_display_phone_number w'' = None"
    if "normalize_webhook payload'' = Inr w''" "offered_metadata payload'' = []"
    using normalize_webhook_pair [OF that(1)] that(2)
    by (auto simp: opt_to_py_def split: option.splits)
  from a b c show ?thesis by blast
qed


theorem normalize_metadata_first_truthy_witness:
  "normalize_webhook
     (PDict [(PStr ''entry'', PList [PDict [(PStr ''changes'', PList
        [PDict [(PStr ''field'', PStr ''messages''),
                (PStr ''value'', PDict [(PStr ''metadata'',
                   PDict [(PStr ''display_phone_number'', PStr ''+1'')])])],
         PDict [(PStr ''field'', PStr ''account_alerts''),
                (PStr ''value'', PDict [(PStr ''alertType'', PStr ''policy'')])],
         PDict [(PStr ''field'', PStr ''messages''),
                (PStr ''value'', PDict [(PStr ''metadata'',
                   PDict [(PStr ''phone_number_id'', PStr ''222''),
                          (PStr ''display_phone_number'', PStr ''+2'')])])]])],
        PDict [(PStr ''changes'', PList
        [PDict [(PStr ''field'', PStr ''messages''),
                (PStr ''value'', PDict [(PStr ''metadata'',
                   PDict [(PStr ''phone_number_id'', PStr ''333''),
                          (PStr ''display_phone_number'', PStr ''+3'')])])]])]])])
   = Inr \<lparr>nw_object = None, nw_phone_number_id = Some ''222'',
          nw_display_phone_number = Some ''+2'', nw_contacts = [], nw_messages = [],
          nw_statuses = [],
          nw_raw = [(''account_alerts'', [[(PStr ''alert_type'', PStr ''policy'')]])]\<rparr>
   \<and> \<not> truthy PNone \<and> truthy (PStr ''222'')
   \<and> normalize_webhook
     (PDict [(PStr ''entry'', PList [PDict [(PStr ''changes'', PList
        [PDict [(PStr ''field'', PStr ''messages''),
                (PStr ''value'', PDict [(PStr ''metadata'',
                   PDict [(PStr ''phone_number_id'', PStr []),
                          (PStr ''display_phone_number'', PStr ''+1'')])])],
         PDict [(PStr ''field'', PStr ''messages''),
                (PStr ''value'', PDict [(PStr ''metadata'',
                   PDict [(PStr ''display_phone_number'', PStr ''+9'')])])]])]])])
   = Inr \<lparr>nw_object = None, nw_phone_number_id = None,
          nw_display_phone_number = Some ''+9'', nw_contacts = [], nw_messages = [],
          nw_statuses = [], nw_raw = []\<rparr>
   \<and> \<not> truthy (PStr [])
   \<and> normalize_webhook (PDict [(PStr ''object'', PStr ''whatsapp_business_account'')])
   = Inr \<lparr>nw_object = Some ''whatsapp_business_account'', nw_phone_number_id = None,
          nw_display_phone_number = None, nw_contacts = [], nw_messages = [],
          nw_statuses = [], nw_raw = []\<rparr>"
proof -
  let ?a = "PDict [(PStr ''entry'', PList [PDict [(PStr ''changes'', PList
        [PDict [(PStr ''field'', PStr ''messages''),
                (PStr ''value'', PDict [(PStr ''metadata'',
                   PDict [(PStr ''display_phone_number'', PStr ''+1'')])])],
         PDict [(PStr ''field'', PStr ''account_alerts''),
                (PStr ''value'', PDict [(PStr ''alertType'', PStr ''policy'')])],
         PDict [(PStr ''field'', PStr ''messages''),
                (PStr ''value'', PDict [(PStr ''metadata'',
                   PDict [(PStr ''phone_number_id'', PStr ''222''),
                          (PStr ''display_phone_number'', PStr ''+2'')])])]])],
        PDict [(PStr ''changes'', PList
        [PDict [(PStr ''field'', PStr ''messages''),
                (PStr ''value'', PDict [(PStr ''metadata'',
                   PDict [(PStr ''phone_number_id'', PStr ''333''),
                          (PStr ''display_phone_number'', PStr ''+3'')])])]])]])]"
  let ?wa = "\<lparr>nw_object = None, nw_phone_number_id = Some ''222'',
          nw_display_phone_number = Some ''+2'', nw_contacts = [], nw_messages = [],
          nw_statuses = [],
          nw_raw = [(''account_alerts'', [[(PStr ''alert_type'', PStr ''policy'')]])]\<rparr>"
  let ?b = "PDict [(PStr ''entry'', PList [PDict [(PStr ''changes'', PList
        [PDict [(PStr ''field'', PStr ''messages''),
                (PStr ''value'', PDict [(PStr ''metadata'',
                   PDict [(PStr ''phone_number_id'', PStr []),
                          (PStr ''display_phone_number'', PStr ''+1'')])])],
         PDict [(PStr ''field'', PStr ''messages''),
                (PStr ''value'', PDict [(PStr ''metadata'',
                   PDict [(PStr ''display_phone_number'', PStr ''+9'')])])]])]])]"
  let ?wb = "\<lparr>nw_object = None, nw_phone_number_id = None,
          nw_display_phone_number = Some ''+9'', nw_contacts = [], nw_messages = [],
          nw_statuses = [], nw_raw = []\<rparr>"
  let ?c = "PDict [(PStr ''object'', PStr ''whatsapp_business_account'')]"
  let ?wc = "\<lparr>nw_object = Some ''whatsapp_business_account'', nw_phone_number_id = None,
          nw_display_phone_number = None, nw_contacts = [], nw_messages = [],
          nw_statuses = [], nw_raw = []\<rparr>"
  have na: "normalize_webhook ?a = Inr ?wa" by code_simp
  have nb: "normalize_webhook ?b = Inr ?wb" by code_simp
  have nc: "normalize_webhook ?c = Inr ?wc" by code_simp
  have oa: "offered_metadata ?a
      = [(PNone, PStr ''+1'')] @ (PStr ''222'', PStr ''+2'') # [(PStr ''333'', PStr ''+3'')]"
    by code_simp
  have ob: "offered_metadata ?b = [(PStr [], PStr ''+1''), (PNone, PStr ''+9'')]"
    by code_simp
  have oc: "offered_metadata ?c = []" by code_simp
  note inst = normalize_metadata_first_truthy [of ?a ?wa "[(PNone, PStr ''+1'')]"
      "PStr ''222''" "PStr ''+2''" "[(PStr ''333'', PStr ''+3'')]"
      ?b ?wb "[(PStr [], PStr ''+1''), (PNone, PStr ''+9'')]" ?c ?wc]
  have "opt_to_py (nw_phone_number_id ?wa) = PStr ''222''
      \<and> opt_to_py (nw_display_phone_number ?wa) = PStr ''+2''"
    using inst [THEN conjunct1] na oa by simp
  moreover have "(opt_to_py (nw_phone_number_id ?wb), opt_to_py (nw_display_phone_number ?wb))
      = last [(PStr [], PStr ''+1''), (PNone, PStr ''+9'')]"
    using inst [THEN conjunct2, THEN conjunct1] nb ob by simp
  moreover have "nw_phone_number_id ?wc = None \<and> nw_display_phone_number ?wc = None"
    using inst [THEN conjunct2, THEN conjunct2] nc oc by simp
  ultimately show ?thesis
    using na nb nc by simp
qed

end
